theory Spec2Isabelle
  imports Complex_Main
begin

section \<open>Building blocks of \<open>official/vision/modeling/layers/nn_blocks.py\<close>\<close>

text \<open>
  The development embeds the reversible layer of \<open>nn_blocks.py\<close> (its forward pass, its
  hand-written backward pass and the bracket around the batch statistics), the helper
  \<open>_maybe_downsample\<close>, the residual gate of the inverted-bottleneck and Tucker blocks and
  the configuration export of the depthwise-separable block.

  Tensors carry a static shape and their elements in row-major order. Elements are
  rationals: the properties below are about which operations run on which operands, in
  which order and on which shapes, and none of them uses a law of arithmetic that
  floating-point numbers lack.
\<close>

subsection \<open>Errors\<close>

datatype error =
    InvalidArgumentError   \<comment> \<open>raised by a TensorFlow primitive on incompatible shapes\<close>
  | IndexError             \<comment> \<open>Python: sequence index out of range\<close>
  | ValueError             \<comment> \<open>Python: \<open>list.index\<close> of an absent element\<close>
  | TypeError              \<comment> \<open>Python: an operation on \<open>None\<close>, a missing argument\<close>
  | AttributeError         \<comment> \<open>Python: an attribute read before it was set\<close>
  | LayerError nat         \<comment> \<open>an exception raised inside an inner layer\<close>

subsection \<open>Tensors and the TensorFlow primitives the module calls\<close>

datatype tensor = Tensor (shape: "nat list") (vals: "rat list")

text \<open>All index vectors of a shape, in row-major order, and the offset of one of them.\<close>

fun indices :: "nat list \<Rightarrow> nat list list" where
  "indices [] = [[]]"
| "indices (d # ds) = concat (map (\<lambda>i. map (\<lambda>r. i # r) (indices ds)) [0..<d])"

fun offset :: "nat list \<Rightarrow> nat list \<Rightarrow> nat" where
  "offset (d # ds) (i # js) = i * prod_list ds + offset ds js"
| "offset _ _ = 0"

definition elem_at :: "tensor \<Rightarrow> nat list \<Rightarrow> rat" where
  "elem_at t idx = vals t ! offset (shape t) idx"

definition build :: "nat list \<Rightarrow> (nat list \<Rightarrow> rat) \<Rightarrow> tensor" where
  "build sh f = Tensor sh (map f (indices sh))"

definition well_formed :: "tensor \<Rightarrow> bool" where
  "well_formed t \<longleftrightarrow> length (vals t) = prod_list (shape t)"

text \<open>Python's \<open>seq[i]\<close>: a negative index counts from the end.\<close>

definition py_axis :: "nat \<Rightarrow> int \<Rightarrow> error + nat" where
  "py_axis n i =
     (let j = (if i < 0 then int n + i else i)
      in if 0 \<le> j \<and> j < int n then Inr (nat j) else Inl IndexError)"

text \<open>\<open>t.shape[axis]\<close>\<close>

definition shape_at :: "tensor \<Rightarrow> int \<Rightarrow> error + nat" where
  "shape_at t axis =
     (case py_axis (length (shape t)) axis of
        Inl e \<Rightarrow> Inl e
      | Inr k \<Rightarrow> Inr (shape t ! k))"

text \<open>
  \<open>tf.split(x, num_or_size_splits=2, axis=axis)\<close>: the dimension must be divisible by
  the number of parts; the parts are the two halves along that axis.
\<close>

definition tf_split2 :: "tensor \<Rightarrow> int \<Rightarrow> error + (tensor \<times> tensor)" where
  "tf_split2 x axis =
     (case py_axis (length (shape x)) axis of
        Inl e \<Rightarrow> Inl InvalidArgumentError
      | Inr k \<Rightarrow>
          (let d = shape x ! k; h = d div 2; sh = (shape x)[k := h]
           in if d mod 2 \<noteq> 0 then Inl InvalidArgumentError
              else Inr (build sh (\<lambda>idx. elem_at x idx),
                        build sh (\<lambda>idx. elem_at x (idx[k := idx ! k + h])))))"

text \<open>
  \<open>tf.concat([a, b], axis=axis)\<close>: equal ranks, and equal dimensions everywhere but on
  the axis.
\<close>

definition tf_concat2 :: "tensor \<Rightarrow> tensor \<Rightarrow> int \<Rightarrow> error + tensor" where
  "tf_concat2 a b axis =
     (case py_axis (length (shape a)) axis of
        Inl e \<Rightarrow> Inl InvalidArgumentError
      | Inr k \<Rightarrow>
          (let da = shape a ! k; db = shape b ! k
           in if length (shape b) \<noteq> length (shape a)
                 \<or> (shape b)[k := da] \<noteq> shape a then Inl InvalidArgumentError
              else Inr (build ((shape a)[k := da + db])
                          (\<lambda>idx. if idx ! k < da then elem_at a idx
                                 else elem_at b (idx[k := idx ! k - da])))))"

text \<open>
  Broadcasting of the element-wise binary operators: shapes are aligned on the right,
  a missing dimension counts as 1, and two dimensions are compatible when they are equal
  or one of them is 1.
\<close>

fun broadcast_rev :: "nat list \<Rightarrow> nat list \<Rightarrow> nat list option" where
  "broadcast_rev [] bs = Some bs"
| "broadcast_rev as [] = Some as"
| "broadcast_rev (a # as) (b # bs) =
     (case broadcast_rev as bs of
        None \<Rightarrow> None
      | Some r \<Rightarrow>
          if a = b then Some (a # r)
          else if a = 1 then Some (b # r)
          else if b = 1 then Some (a # r)
          else None)"

definition broadcast_shape :: "nat list \<Rightarrow> nat list \<Rightarrow> nat list option" where
  "broadcast_shape sa sb = map_option rev (broadcast_rev (rev sa) (rev sb))"

text \<open>The index of an operand that an index of the broadcast result reads.\<close>

definition operand_index :: "nat list \<Rightarrow> nat list \<Rightarrow> nat list" where
  "operand_index sh idx =
     map (\<lambda>(d, i). if d = 1 then 0 else i)
         (zip sh (drop (length idx - length sh) idx))"

definition tf_binop :: "(rat \<Rightarrow> rat \<Rightarrow> rat) \<Rightarrow> tensor \<Rightarrow> tensor \<Rightarrow> error + tensor" where
  "tf_binop f a b =
     (case broadcast_shape (shape a) (shape b) of
        None \<Rightarrow> Inl InvalidArgumentError
      | Some sh \<Rightarrow>
          Inr (build sh (\<lambda>idx. f (elem_at a (operand_index (shape a) idx))
                                (elem_at b (operand_index (shape b) idx)))))"

definition tf_add :: "tensor \<Rightarrow> tensor \<Rightarrow> error + tensor" where
  "tf_add = tf_binop (\<lambda>u v. u + v)"

definition tf_sub :: "tensor \<Rightarrow> tensor \<Rightarrow> error + tensor" where
  "tf_sub = tf_binop (\<lambda>u v. u - v)"

text \<open>\<open>x + 0.\<close>: a scalar added to every element.\<close>

definition add_scalar :: "tensor \<Rightarrow> rat \<Rightarrow> tensor" where
  "add_scalar x c = Tensor (shape x) (map (\<lambda>v. v + c) (vals x))"

text \<open>
  \<open>tf.nn.avg_pool(x, ksize, strides, 'VALID', data_format)\<close> on a rank-4 tensor with
  length-4 window and stride vectors: no padding, so every window is full and output
  dimension \<open>k\<close> is \<open>(d - ksize) div stride + 1\<close> (0 when the window is larger than the
  input). Window sizes and strides must be positive.
\<close>

definition tf_nn_avg_pool :: "tensor \<Rightarrow> int list \<Rightarrow> int list \<Rightarrow> error + tensor" where
  "tf_nn_avg_pool x ksize strides =
     (if length (shape x) \<noteq> 4 \<or> length ksize \<noteq> 4 \<or> length strides \<noteq> 4
         \<or> (\<exists>k \<in> set ksize. k \<le> 0) \<or> (\<exists>s \<in> set strides. s \<le> 0)
      then Inl InvalidArgumentError
      else
        (let ks = map nat ksize; ss = map nat strides;
             out = map (\<lambda>(d, k, s). if d < k then 0 else (d - k) div s + 1)
                       (zip (shape x) (zip ks ss))
         in Inr (build out
                  (\<lambda>idx. sum_list (map (\<lambda>w. elem_at x (map (\<lambda>(i, s, j). i * s + j)
                                                         (zip idx (zip ss w))))
                                        (indices ks))
                          / of_nat (prod_list ks)))))"

text \<open>\<open>tf.pad(x, paddings)\<close> with zeros; \<open>paddings\<close> gives (before, after) for every dimension.\<close>

definition tf_pad :: "tensor \<Rightarrow> (nat \<times> nat) list \<Rightarrow> error + tensor" where
  "tf_pad x paddings =
     (if length paddings \<noteq> length (shape x) then Inl InvalidArgumentError
      else Inr (build (map (\<lambda>(d, (p, q)). p + d + q) (zip (shape x) paddings))
                  (\<lambda>idx. if list_all (\<lambda>(i, (d, (p, q))). p \<le> i \<and> i < p + d)
                                      (zip idx (zip (shape x) paddings))
                         then elem_at x (map (\<lambda>(i, (p, q)). i - p) (zip idx paddings))
                         else 0)))"

subsection \<open>\<open>_pad_strides\<close> and \<open>_maybe_downsample\<close>\<close>

definition pad_strides :: "int \<Rightarrow> int \<Rightarrow> int list" where
  "pad_strides strides axis =
     (if axis = 1 then [1, 1, strides, strides] else [1, strides, strides, 1])"

definition maybe_downsample :: "tensor \<Rightarrow> nat \<Rightarrow> int \<Rightarrow> int \<Rightarrow> error + tensor" where
  "maybe_downsample x out_filter strides axis =
     (let strides4 = pad_strides strides axis
      in case tf_nn_avg_pool x strides4 strides4 of
           Inl e \<Rightarrow> Inl e
         | Inr x1 \<Rightarrow>
             (case shape_at x1 axis of
                Inl e \<Rightarrow> Inl e
              | Inr in_filter \<Rightarrow>
                  if in_filter < out_filter then
                    (let pad_size = ((out_filter - in_filter) div 2,
                                     (out_filter - in_filter) div 2)
                     in case (if axis = 1
                              then tf_pad x1 [(0, 0), pad_size, (0, 0), (0, 0)]
                              else tf_pad x1 [(0, 0), (0, 0), (0, 0), pad_size]) of
                          Inl e \<Rightarrow> Inl e
                        | Inr x2 \<Rightarrow> Inr (add_scalar x2 0))
                  else Inr (add_scalar x1 0)))"

subsection \<open>Variables, inner layers and the state the reversible layer runs in\<close>

type_synonym var = nat

type_synonym store = "var \<Rightarrow> tensor"

text \<open>What a gradient is taken with respect to: the input of a recorded call, or a variable.\<close>

datatype source = Input | Var var

text \<open>
  An inner layer (\<open>F\<close> or \<open>G\<close>): its \<open>strides\<close> attribute, its variables, its call and
  the gradient of a recorded call. A call reads and writes variables and may raise; the
  store survives the exception. \<open>gradient training x st dy src\<close> is what
  \<open>tape.gradient(out, [src], output_gradients=dy)\<close> returns for the call on \<open>x\<close> recorded
  in store \<open>st\<close>.
\<close>

record layer =
  strides :: int
  trainable_variables :: "var list"
  non_trainable_variables :: "var list"
  call :: "bool option \<Rightarrow> tensor \<Rightarrow> store \<Rightarrow> (error + tensor) \<times> store"
  gradient :: "bool option \<Rightarrow> tensor \<Rightarrow> store \<Rightarrow> tensor \<Rightarrow> source \<Rightarrow> tensor"

record reversible_layer =
  self_f :: layer
  self_g :: layer
  self_manual_grads :: bool
  self_axis :: int

text \<open>
  The mutable state: the values of all variables, and the two snapshot attributes of the
  reversible layer (absent until \<open>_ckpt_non_trainable_vars\<close> has run once).
\<close>

record state =
  var_values :: store
  f_non_trainable_vars :: "tensor list option"
  g_non_trainable_vars :: "tensor list option"

type_synonym 'a action = "state \<Rightarrow> (error + 'a) \<times> state"

definition ret :: "'a \<Rightarrow> 'a action" where
  "ret a = (\<lambda>s. (Inr a, s))"

definition raise :: "error \<Rightarrow> 'a action" where
  "raise e = (\<lambda>s. (Inl e, s))"

definition lift :: "error + 'a \<Rightarrow> 'a action" where
  "lift r = (\<lambda>s. (r, s))"

definition then_do :: "'a action \<Rightarrow> ('a \<Rightarrow> 'b action) \<Rightarrow> 'b action" where
  "then_do m k = (\<lambda>s. case m s of
                         (Inl e, s') \<Rightarrow> (Inl e, s')
                       | (Inr a, s') \<Rightarrow> k a s')"

definition call_layer :: "layer \<Rightarrow> bool option \<Rightarrow> tensor \<Rightarrow> tensor action" where
  "call_layer l training x =
     (\<lambda>s. case call l training x (var_values s) of
             (r, st) \<Rightarrow> (r, s\<lparr>var_values := st\<rparr>))"

subsection \<open>\<open>ReversibleLayer._ckpt_non_trainable_vars\<close> and \<open>_load_ckpt_non_trainable_vars\<close>\<close>

definition ckpt_non_trainable_vars :: "reversible_layer \<Rightarrow> unit action" where
  "ckpt_non_trainable_vars self =
     (\<lambda>s. (Inr (),
            s\<lparr>f_non_trainable_vars :=
                 Some (map (var_values s) (non_trainable_variables (self_f self))),
              g_non_trainable_vars :=
                 Some (map (var_values s) (non_trainable_variables (self_g self)))\<rparr>))"

text \<open>\<open>for v, v_chkpt in zip(vs, chkpts): v.assign(v_chkpt)\<close>\<close>

fun assign_all :: "(var \<times> tensor) list \<Rightarrow> store \<Rightarrow> store" where
  "assign_all [] st = st"
| "assign_all ((v, c) # rest) st = assign_all rest (st(v := c))"

definition load_ckpt_non_trainable_vars :: "reversible_layer \<Rightarrow> unit action" where
  "load_ckpt_non_trainable_vars self =
     (\<lambda>s. case f_non_trainable_vars s of
             None \<Rightarrow> (Inl AttributeError, s)
           | Some fs \<Rightarrow>
               (let s1 = s\<lparr>var_values :=
                            assign_all (zip (non_trainable_variables (self_f self)) fs)
                                       (var_values s)\<rparr>
                in case g_non_trainable_vars s1 of
                     None \<Rightarrow> (Inl AttributeError, s1)
                   | Some gs \<Rightarrow>
                       (Inr (),
                        s1\<lparr>var_values :=
                             assign_all (zip (non_trainable_variables (self_g self)) gs)
                                        (var_values s1)\<rparr>)))"

subsection \<open>\<open>ReversibleLayer.call\<close>: the forward function \<open>reversible\<close>\<close>

text \<open>
  The flag \<open>irreversible\<close> reads \<open>y.shape[axis]\<close> and \<open>inputs.shape[axis]\<close>. Both reads
  succeed whenever the split and the concatenation before them have, so reading them
  ahead of the disjunction raises nothing that the source's short-circuit would skip.

  What \<open>grad_fn\<close> closes over: the tensors of the forward pass, the flag computed there,
  the training argument of \<open>call\<close>, and the forward tape. The tape is TensorFlow's record
  of the forward computation; \<open>fwdtape dy src\<close> stands for
  \<open>fwdtape.gradient(y, [src], output_gradients=dy)\<close>.
\<close>

record closure =
  c_x :: tensor
  c_y :: tensor
  c_y1 :: tensor
  c_y2 :: tensor
  c_irreversible :: bool
  c_training :: "bool option"
  c_fwdtape :: "tensor \<Rightarrow> source \<Rightarrow> tensor"

definition reversible ::
  "reversible_layer \<Rightarrow> bool option \<Rightarrow> (tensor \<Rightarrow> source \<Rightarrow> tensor) \<Rightarrow> tensor
     \<Rightarrow> (tensor \<times> closure) action" where
  "reversible self training fwdtape x =
     (then_do (lift (tf_split2 x (self_axis self))) (\<lambda>(x1, x2).
      then_do (call_layer (self_f self) training x2) (\<lambda>f_x2.
      then_do (lift (shape_at f_x2 (self_axis self))) (\<lambda>f_filters.
      then_do (lift (maybe_downsample x1 f_filters (strides (self_f self)) (self_axis self)))
        (\<lambda>x1_down.
      then_do (lift (tf_add f_x2 x1_down)) (\<lambda>z1.
      then_do (call_layer (self_g self) training z1) (\<lambda>g_z1.
      then_do (lift (shape_at g_z1 (self_axis self))) (\<lambda>g_filters.
      then_do (lift (maybe_downsample x2 g_filters (strides (self_f self)) (self_axis self)))
        (\<lambda>x2_down.
      then_do (lift (tf_add x2_down g_z1)) (\<lambda>y2.
      let y1 = z1 in
      then_do (lift (tf_concat2 y1 y2 (self_axis self))) (\<lambda>y.
      then_do (lift (shape_at y (self_axis self))) (\<lambda>y_filters.
      then_do (lift (shape_at x (self_axis self))) (\<lambda>x_filters.
      let irreversible = ((strides (self_f self) \<noteq> 1 \<or> strides (self_g self) \<noteq> 1)
                          \<or> y_filters \<noteq> x_filters) in
      then_do (ckpt_non_trainable_vars self) (\<lambda>_.
      ret (y, \<lparr>c_x = x, c_y = y, c_y1 = y1, c_y2 = y2,
               c_irreversible = irreversible, c_training = training,
               c_fwdtape = fwdtape\<rparr>)))))))))))))))"

subsection \<open>\<open>grad_fn\<close>: the backward function\<close>

text \<open>Python's \<open>list.index\<close>: the first position of an element, \<open>ValueError\<close> when absent.\<close>

fun list_index :: "'a list \<Rightarrow> 'a \<Rightarrow> error + nat" where
  "list_index [] v = Inl ValueError"
| "list_index (u # us) v =
     (if u = v then Inr 0
      else case list_index us v of Inl e \<Rightarrow> Inl e | Inr i \<Rightarrow> Inr (Suc i))"

text \<open>A list comprehension whose element expression may raise.\<close>

fun map_raising :: "('a \<Rightarrow> error + 'b) \<Rightarrow> 'a list \<Rightarrow> error + 'b list" where
  "map_raising h [] = Inr []"
| "map_raising h (a # as) =
     (case h a of
        Inl e \<Rightarrow> Inl e
      | Inr b \<Rightarrow> (case map_raising h as of Inl e \<Rightarrow> Inl e | Inr bs \<Rightarrow> Inr (b # bs)))"

definition list_get :: "'a list \<Rightarrow> nat \<Rightarrow> error + 'a" where
  "list_get xs i = (if i < length xs then Inr (xs ! i) else Inl IndexError)"

text \<open>
  The two strategies are kept apart so that each can be named. \<open>variables\<close> is the keyword
  argument of \<open>grad_fn\<close>, \<open>None\<close> by default.
\<close>

definition grad_fn_autodiff ::
  "closure \<Rightarrow> tensor \<Rightarrow> var list option \<Rightarrow> (tensor \<times> tensor list) action" where
  "grad_fn_autodiff c dy variables =
     (case variables of
        None \<Rightarrow> raise TypeError
      | Some vs \<Rightarrow>
          (let grads_combined = map (c_fwdtape c dy) (Input # map Var vs);
               dx = hd grads_combined;
               grad_vars = tl grads_combined
           in ret (dx, grad_vars)))"

definition get_vars :: "store action" where
  "get_vars = (\<lambda>s. (Inr (var_values s), s))"

definition grad_fn_manual ::
  "reversible_layer \<Rightarrow> closure \<Rightarrow> tensor \<Rightarrow> var list option
     \<Rightarrow> (tensor \<times> tensor list) action" where
  "grad_fn_manual self c dy variables =
     (let y1_nograd = c_y1 c; y2_nograd = c_y2 c; training = c_training c in
      then_do (lift (tf_split2 dy (self_axis self))) (\<lambda>(dy1, dy2).
      let f_var_refs = trainable_variables (self_f self);
          g_var_refs = trainable_variables (self_g self);
          fg_var_refs = f_var_refs @ g_var_refs in
      then_do (case variables of
                 None \<Rightarrow> raise TypeError
               | Some vs \<Rightarrow> lift (map_raising (list_index fg_var_refs) vs))
        (\<lambda>self_to_var_index.
      let z1 = y1_nograd in
      then_do get_vars (\<lambda>gtape_vars.
      then_do (call_layer (self_g self) training z1) (\<lambda>g_z1.
      then_do (lift (tf_sub y2_nograd g_z1)) (\<lambda>x2.
      then_do get_vars (\<lambda>ftape_vars.
      then_do (call_layer (self_f self) training x2) (\<lambda>f_x2.
      then_do (lift (tf_sub z1 f_x2)) (\<lambda>x1.
      let g_grads_combined =
            map (gradient (self_g self) training z1 gtape_vars dy2)
                (Input # map Var (trainable_variables (self_g self))) in
      then_do (lift (tf_add dy1 (hd g_grads_combined))) (\<lambda>dz1.
      let dwg = tl g_grads_combined;
          f_grads_combined =
            map (gradient (self_f self) training x2 ftape_vars dz1)
                (Input # map Var (trainable_variables (self_f self))) in
      then_do (lift (tf_add dy2 (hd f_grads_combined))) (\<lambda>dx2.
      let dwf = tl f_grads_combined;
          dx1 = dz1 in
      then_do (lift (tf_concat2 dx1 dx2 (self_axis self))) (\<lambda>dx.
      let grad_vars = dwf @ dwg in
      then_do (lift (map_raising (list_get grad_vars) self_to_var_index))
        (\<lambda>grad_vars.
      then_do (load_ckpt_non_trainable_vars self) (\<lambda>_.
      ret (dx, grad_vars)))))))))))))))"

text \<open>\<open>if irreversible or not self._manual_grads: ... else: ...\<close>\<close>

datatype strategy = Autodiff | Manual

definition backward_strategy :: "reversible_layer \<Rightarrow> closure \<Rightarrow> strategy" where
  "backward_strategy self c =
     (if c_irreversible c \<or> \<not> self_manual_grads self then Autodiff else Manual)"

definition grad_fn ::
  "reversible_layer \<Rightarrow> closure \<Rightarrow> tensor \<Rightarrow> var list option
     \<Rightarrow> (tensor \<times> tensor list) action" where
  "grad_fn self c dy variables =
     (case backward_strategy self c of
        Autodiff \<Rightarrow> grad_fn_autodiff c dy variables
      | Manual \<Rightarrow> grad_fn_manual self c dy variables)"

subsection \<open>The forward pass as the specification words it\<close>

text \<open>
  The specification adjusts a shortcut so that it aligns with the block output: it is
  ``average-pooled with F's stride if stride \<open>\<noteq>\<close> 1; zero-padded on the channel axis if
  channel counts differ'', and the shortcut of the second half is ``adjusted analogously
  using G's shape/stride''. \<open>downsample_as_specified\<close> is that adjustment: it pools only
  for a stride other than 1 and pads by the whole difference of the channel counts, so
  that the result has the count asked for. The specification does not say how an odd
  difference is divided between the two sides; here the larger half follows the data. A
  tensor with more channels than asked for cannot be aligned by padding and is left as it
  is.
\<close>

definition downsample_as_specified :: "tensor \<Rightarrow> nat \<Rightarrow> int \<Rightarrow> int \<Rightarrow> error + tensor" where
  "downsample_as_specified x channels stride axis =
     (case (if stride \<noteq> 1
            then tf_nn_avg_pool x (pad_strides stride axis) (pad_strides stride axis)
            else Inr x) of
        Inl e \<Rightarrow> Inl e
      | Inr p \<Rightarrow>
          (case py_axis (length (shape p)) axis of
             Inl e \<Rightarrow> Inl e
           | Inr k \<Rightarrow>
               (let c = shape p ! k
                in if c < channels
                   then tf_pad p ((replicate (length (shape p)) (0, 0))
                                    [k := ((channels - c) div 2,
                                           channels - c - (channels - c) div 2)])
                   else Inr p)))"

text \<open>
  \<open>forward_as_specified\<close> is the forward computation of section 4.2 of the specification,
  steps 1 to 8: \<open>x1\<close> is adjusted for the shape and stride of \<open>F\<close>, \<open>x2\<close> for the shape and
  stride of \<open>G\<close>.
\<close>

definition forward_as_specified ::
  "reversible_layer \<Rightarrow> bool option \<Rightarrow> tensor \<Rightarrow> tensor action" where
  "forward_as_specified self training x =
     (then_do (lift (tf_split2 x (self_axis self))) (\<lambda>(x1, x2).
      then_do (call_layer (self_f self) training x2) (\<lambda>f_x2.
      then_do (lift (shape_at f_x2 (self_axis self))) (\<lambda>f_filters.
      then_do (lift (downsample_as_specified x1 f_filters (strides (self_f self))
                       (self_axis self)))
        (\<lambda>x1_down.
      then_do (lift (tf_add f_x2 x1_down)) (\<lambda>z1.
      then_do (call_layer (self_g self) training z1) (\<lambda>g_z1.
      then_do (lift (shape_at g_z1 (self_axis self))) (\<lambda>g_filters.
      then_do (lift (downsample_as_specified x2 g_filters (strides (self_g self))
                       (self_axis self)))
        (\<lambda>x2_down.
      then_do (lift (tf_add x2_down g_z1)) (\<lambda>y2.
      lift (tf_concat2 z1 y2 (self_axis self))))))))))))"

text \<open>
  \<open>zero_padded k pd p q\<close>: \<open>q\<close> is \<open>p\<close> with \<open>pd\<close> channels of zeros added on each side of
  dimension \<open>k\<close>. Every element of \<open>q\<close> outside the middle band is 0, and the middle band
  holds the elements of \<open>p\<close>.
\<close>

definition zero_padded :: "nat \<Rightarrow> nat \<Rightarrow> tensor \<Rightarrow> tensor \<Rightarrow> bool" where
  "zero_padded k pd p q \<longleftrightarrow>
     shape q = (shape p)[k := shape p ! k + 2 * pd]
   \<and> well_formed q
   \<and> (\<forall>idx \<in> set (indices (shape q)).
         elem_at q idx =
           (if pd \<le> idx ! k \<and> idx ! k < pd + shape p ! k
            then elem_at p (idx[k := idx ! k - pd])
            else 0))"

subsection \<open>The residual gate of \<open>InvertedBottleneckBlock\<close> and \<open>TuckerConvBlock\<close>\<close>

text \<open>
  A built block: the options that \<open>call\<close> reads and the sublayers that \<open>build\<close> created.
  Sublayers are functions on an arbitrary tensor type; \<open>_squeeze_excitation\<close> and
  \<open>_stochastic_depth\<close> are \<open>None\<close> when \<open>build\<close> did not create them. The stochastic depth
  layer takes the training argument.
\<close>

record 't inverted_bottleneck_block =
  ib_in_filters :: int
  ib_out_filters :: int
  ib_expand_ratio :: int
  ib_strides :: int
  ib_use_depthwise :: bool
  ib_use_residual :: bool
  ib_output_intermediate_endpoints :: bool
  ib_conv0 :: "'t \<Rightarrow> 't"
  ib_norm0 :: "'t \<Rightarrow> 't"
  ib_activation_layer :: "'t \<Rightarrow> 't"
  ib_conv1 :: "'t \<Rightarrow> 't"
  ib_norm1 :: "'t \<Rightarrow> 't"
  ib_depthwise_activation_layer :: "'t \<Rightarrow> 't"
  ib_squeeze_excitation :: "('t \<Rightarrow> 't) option"
  ib_conv2 :: "'t \<Rightarrow> 't"
  ib_norm2 :: "'t \<Rightarrow> 't"
  ib_stochastic_depth :: "(bool option \<Rightarrow> 't \<Rightarrow> 't) option"
  ib_add :: "'t \<Rightarrow> 't \<Rightarrow> 't"

text \<open>\<open>call\<close> returns \<open>x\<close>, or \<open>(x, endpoints)\<close> when intermediate endpoints are requested.\<close>

datatype 't block_output = Plain 't | WithEndpoints 't "(string \<times> 't) list"

fun output_tensor :: "'t block_output \<Rightarrow> 't" where
  "output_tensor (Plain x) = x"
| "output_tensor (WithEndpoints x _) = x"

definition InvertedBottleneckBlock_call ::
  "'t inverted_bottleneck_block \<Rightarrow> 't \<Rightarrow> bool option \<Rightarrow> 't block_output" where
  "InvertedBottleneckBlock_call self inputs training =
     (let endpoints = [];
          shortcut = inputs;
          x = (if ib_expand_ratio self > 1
               then ib_activation_layer self (ib_norm0 self (ib_conv0 self inputs))
               else inputs);
          (x, endpoints) =
             (if ib_use_depthwise self
              then (let x = ib_depthwise_activation_layer self
                              (ib_norm1 self (ib_conv1 self x))
                    in (x, if ib_output_intermediate_endpoints self
                           then endpoints @ [(''depthwise'', x)] else endpoints))
              else (x, endpoints));
          x = (case ib_squeeze_excitation self of Some se \<Rightarrow> se x | None \<Rightarrow> x);
          x = ib_conv2 self x;
          x = ib_norm2 self x;
          x = (if ib_use_residual self \<and> ib_in_filters self = ib_out_filters self
                  \<and> ib_strides self = 1
               then (let x = (case ib_stochastic_depth self of
                                Some sd \<Rightarrow> sd training x
                              | None \<Rightarrow> x)
                     in ib_add self x shortcut)
               else x)
      in if ib_output_intermediate_endpoints self
         then WithEndpoints x endpoints
         else Plain x)"

text \<open>The main branch alone: everything \<open>call\<close> computes up to and including \<open>_norm2\<close>.\<close>

definition InvertedBottleneckBlock_main :: "'t inverted_bottleneck_block \<Rightarrow> 't \<Rightarrow> 't" where
  "InvertedBottleneckBlock_main self inputs =
     ib_norm2 self (ib_conv2 self
       ((case ib_squeeze_excitation self of Some se \<Rightarrow> se | None \<Rightarrow> (\<lambda>x. x))
          ((if ib_use_depthwise self
            then (\<lambda>x. ib_depthwise_activation_layer self (ib_norm1 self (ib_conv1 self x)))
            else (\<lambda>x. x))
             (if ib_expand_ratio self > 1
              then ib_activation_layer self (ib_norm0 self (ib_conv0 self inputs))
              else inputs))))"

record 't tucker_conv_block =
  tk_in_filters :: int
  tk_out_filters :: int
  tk_strides :: int
  tk_use_residual :: bool
  tk_conv0 :: "'t \<Rightarrow> 't"
  tk_norm0 :: "'t \<Rightarrow> 't"
  tk_activation_layer0 :: "'t \<Rightarrow> 't"
  tk_conv1 :: "'t \<Rightarrow> 't"
  tk_norm1 :: "'t \<Rightarrow> 't"
  tk_activation_layer1 :: "'t \<Rightarrow> 't"
  tk_conv2 :: "'t \<Rightarrow> 't"
  tk_norm2 :: "'t \<Rightarrow> 't"
  tk_stochastic_depth :: "(bool option \<Rightarrow> 't \<Rightarrow> 't) option"
  tk_add :: "'t \<Rightarrow> 't \<Rightarrow> 't"

definition TuckerConvBlock_call :: "'t tucker_conv_block \<Rightarrow> 't \<Rightarrow> bool option \<Rightarrow> 't" where
  "TuckerConvBlock_call self inputs training =
     (let shortcut = inputs;
          x = tk_conv0 self inputs;
          x = tk_norm0 self x;
          x = tk_activation_layer0 self x;
          x = tk_conv1 self x;
          x = tk_norm1 self x;
          x = tk_activation_layer1 self x;
          x = tk_conv2 self x;
          x = tk_norm2 self x
      in if tk_use_residual self \<and> tk_in_filters self = tk_out_filters self
            \<and> tk_strides self = 1
         then (let x = (case tk_stochastic_depth self of
                          Some sd \<Rightarrow> sd training x
                        | None \<Rightarrow> x)
               in tk_add self x shortcut)
         else x)"

definition TuckerConvBlock_main :: "'t tucker_conv_block \<Rightarrow> 't \<Rightarrow> 't" where
  "TuckerConvBlock_main self inputs =
     tk_norm2 self (tk_conv2 self (tk_activation_layer1 self (tk_norm1 self (tk_conv1 self
       (tk_activation_layer0 self (tk_norm0 self (tk_conv0 self inputs)))))))"

text \<open>A sublayer that may be absent, applied when present.\<close>

definition apply_stochastic_depth ::
  "(bool option \<Rightarrow> 't \<Rightarrow> 't) option \<Rightarrow> bool option \<Rightarrow> 't \<Rightarrow> 't" where
  "apply_stochastic_depth sd training x =
     (case sd of Some l \<Rightarrow> l training x | None \<Rightarrow> x)"

subsection \<open>Configuration export of \<open>DepthwiseSeparableConvBlock\<close>\<close>

text \<open>Python values that occur as constructor options, and a configuration dictionary.\<close>

datatype pyval = PNone | PBool bool | PInt int | PFloat rat | PStr string | PObj nat

type_synonym config = "string \<rightharpoonup> pyval"

fun truthy :: "pyval \<Rightarrow> bool" where
  "truthy PNone = False"
| "truthy (PBool b) = b"
| "truthy (PInt i) = (i \<noteq> 0)"
| "truthy (PFloat r) = (r \<noteq> 0)"
| "truthy (PStr s) = (s \<noteq> [])"
| "truthy (PObj _) = True"

text \<open>
  The attributes \<open>__init__\<close> sets from its arguments. \<open>dsc_kwargs\<close> are the remaining
  keyword arguments, which go to the base class and come back from its \<open>get_config\<close>.
\<close>

record depthwise_separable_conv_block =
  dsc_filters :: pyval
  dsc_kernel_size :: pyval
  dsc_strides :: pyval
  dsc_activation :: pyval
  dsc_regularize_depthwise :: pyval
  dsc_kernel_initializer :: pyval
  dsc_kernel_regularizer :: pyval
  dsc_dilation_rate :: pyval
  dsc_use_sync_bn :: pyval
  dsc_norm_momentum :: pyval
  dsc_norm_epsilon :: pyval
  dsc_depthsize_regularizer :: pyval
  dsc_kwargs :: config

definition DepthwiseSeparableConvBlock_init ::
  "pyval \<Rightarrow> pyval \<Rightarrow> pyval \<Rightarrow> pyval \<Rightarrow> pyval \<Rightarrow> pyval \<Rightarrow> pyval \<Rightarrow> pyval \<Rightarrow> pyval
     \<Rightarrow> pyval \<Rightarrow> pyval \<Rightarrow> config \<Rightarrow> depthwise_separable_conv_block" where
  "DepthwiseSeparableConvBlock_init filters kernel_size strides' regularize_depthwise
       activation kernel_initializer kernel_regularizer dilation_rate use_sync_bn
       norm_momentum norm_epsilon kwargs =
     \<lparr>dsc_filters = filters,
      dsc_kernel_size = kernel_size,
      dsc_strides = strides',
      dsc_activation = activation,
      dsc_regularize_depthwise = regularize_depthwise,
      dsc_kernel_initializer = kernel_initializer,
      dsc_kernel_regularizer = kernel_regularizer,
      dsc_dilation_rate = dilation_rate,
      dsc_use_sync_bn = use_sync_bn,
      dsc_norm_momentum = norm_momentum,
      dsc_norm_epsilon = norm_epsilon,
      dsc_depthsize_regularizer =
        (if truthy regularize_depthwise then kernel_regularizer else PNone),
      dsc_kwargs = kwargs\<rparr>"

definition DepthwiseSeparableConvBlock_get_config ::
  "depthwise_separable_conv_block \<Rightarrow> config" where
  "DepthwiseSeparableConvBlock_get_config self =
     (let config = [''filters'' \<mapsto> dsc_filters self,
                    ''strides'' \<mapsto> dsc_strides self,
                    ''regularize_depthwise'' \<mapsto> dsc_regularize_depthwise self,
                    ''kernel_initializer'' \<mapsto> dsc_kernel_initializer self,
                    ''kernel_regularizer'' \<mapsto> dsc_kernel_regularizer self,
                    ''activation'' \<mapsto> dsc_activation self,
                    ''use_sync_bn'' \<mapsto> dsc_use_sync_bn self,
                    ''norm_momentum'' \<mapsto> dsc_norm_momentum self,
                    ''norm_epsilon'' \<mapsto> dsc_norm_epsilon self];
          base_config = dsc_kwargs self
      in base_config ++ config)"

text \<open>
  \<open>cls(**config)\<close>, which is what the inherited \<open>from_config\<close> does: a keyword the
  signature names binds that parameter, a parameter without a keyword takes its default
  (\<open>filters\<close> has none), and the other keywords are \<open>**kwargs\<close>.
\<close>

definition dsc_parameters :: "string list" where
  "dsc_parameters = [''filters'', ''kernel_size'', ''strides'', ''regularize_depthwise'',
     ''activation'', ''kernel_initializer'', ''kernel_regularizer'', ''dilation_rate'',
     ''use_sync_bn'', ''norm_momentum'', ''norm_epsilon'']"

definition keyword :: "config \<Rightarrow> string \<Rightarrow> pyval \<Rightarrow> pyval" where
  "keyword cfg k dflt = (case cfg k of Some v \<Rightarrow> v | None \<Rightarrow> dflt)"

definition DepthwiseSeparableConvBlock_from_config ::
  "config \<Rightarrow> error + depthwise_separable_conv_block" where
  "DepthwiseSeparableConvBlock_from_config cfg =
     (case cfg ''filters'' of
        None \<Rightarrow> Inl TypeError
      | Some filters \<Rightarrow>
          Inr (DepthwiseSeparableConvBlock_init filters
                 (keyword cfg ''kernel_size'' (PInt 3))
                 (keyword cfg ''strides'' (PInt 1))
                 (keyword cfg ''regularize_depthwise'' (PBool False))
                 (keyword cfg ''activation'' (PStr ''relu6''))
                 (keyword cfg ''kernel_initializer'' (PStr ''VarianceScaling''))
                 (keyword cfg ''kernel_regularizer'' PNone)
                 (keyword cfg ''dilation_rate'' (PInt 1))
                 (keyword cfg ''use_sync_bn'' (PBool False))
                 (keyword cfg ''norm_momentum'' (PFloat (99 / 100)))
                 (keyword cfg ''norm_epsilon'' (PFloat (1 / 1000)))
                 (\<lambda>k. if k \<in> set dsc_parameters then None else cfg k)))"

subsection \<open>Concrete layers and inputs\<close>

text \<open>
  \<open>scale_layer\<close> multiplies its input by a scalar weight \<open>w\<close> and counts its calls in the
  statistic \<open>m\<close>, the way a batch normalisation updates its moving averages on every call.
  Its gradients are those of \<open>x \<mapsto> w * x\<close>.
\<close>

definition scale_layer :: "int \<Rightarrow> var \<Rightarrow> var \<Rightarrow> layer" where
  "scale_layer st w m =
     \<lparr>strides = st,
      trainable_variables = [w],
      non_trainable_variables = [m],
      call = (\<lambda>training x vs.
                (tf_binop (\<lambda>u v. u * v) x (vs w), vs(m := add_scalar (vs m) 1))),
      gradient = (\<lambda>training x vs dy src.
                (case src of
                   Input \<Rightarrow> Tensor (shape dy) (map (\<lambda>u. u * hd (vals (vs w))) (vals dy))
                 | Var v \<Rightarrow>
                     if v = w
                     then Tensor [] [sum_list (map (\<lambda>(u, v). u * v) (zip (vals dy) (vals x)))]
                     else Tensor [] [0]))\<rparr>"

text \<open>
  \<open>flaky_layer\<close> behaves like \<open>scale_layer\<close> on its first call and raises on every later
  one.
\<close>

definition flaky_layer :: "int \<Rightarrow> var \<Rightarrow> var \<Rightarrow> layer" where
  "flaky_layer st w m =
     \<lparr>strides = st,
      trainable_variables = [w],
      non_trainable_variables = [m],
      call = (\<lambda>training x vs.
                if vals (vs m) = [0]
                then (tf_binop (\<lambda>u v. u * v) x (vs w), vs(m := add_scalar (vs m) 1))
                else (Inl (LayerError m), vs)),
      gradient = (\<lambda>training x vs dy src. dy)\<rparr>"

text \<open>
  \<open>downsampling_layer\<close> has stride 2: it halves height and width by average pooling and
  doubles the channels, as the first block of a block group does.
\<close>

definition downsampling_layer :: "var \<Rightarrow> layer" where
  "downsampling_layer m =
     \<lparr>strides = 2,
      trainable_variables = [],
      non_trainable_variables = [m],
      call = (\<lambda>training x vs.
                ((case tf_nn_avg_pool x [1, 2, 2, 1] [1, 2, 2, 1] of
                    Inl e \<Rightarrow> Inl e
                  | Inr p \<Rightarrow> tf_concat2 p p (- 1)),
                 vs(m := add_scalar (vs m) 1))),
      gradient = (\<lambda>training x vs dy src. dy)\<rparr>"

text \<open>
  \<open>pooling_layer\<close> has stride 2 and keeps the channel count; \<open>widening_layer\<close> has stride
  2 and triples it.
\<close>

definition pooling_layer :: "var \<Rightarrow> layer" where
  "pooling_layer m =
     \<lparr>strides = 2,
      trainable_variables = [],
      non_trainable_variables = [m],
      call = (\<lambda>training x vs.
                (tf_nn_avg_pool x [1, 2, 2, 1] [1, 2, 2, 1],
                 vs(m := add_scalar (vs m) 1))),
      gradient = (\<lambda>training x vs dy src. dy)\<rparr>"

definition widening_layer :: "var \<Rightarrow> layer" where
  "widening_layer m =
     \<lparr>strides = 2,
      trainable_variables = [],
      non_trainable_variables = [m],
      call = (\<lambda>training x vs.
                ((case tf_nn_avg_pool x [1, 2, 2, 1] [1, 2, 2, 1] of
                    Inl e \<Rightarrow> Inl e
                  | Inr p \<Rightarrow>
                      (case tf_concat2 p p (- 1) of
                         Inl e \<Rightarrow> Inl e
                       | Inr pp \<Rightarrow> tf_concat2 pp p (- 1))),
                 vs(m := add_scalar (vs m) 1))),
      gradient = (\<lambda>training x vs dy src. dy)\<rparr>"

definition identity_layer :: "var \<Rightarrow> layer" where
  "identity_layer m =
     \<lparr>strides = 1,
      trainable_variables = [],
      non_trainable_variables = [m],
      call = (\<lambda>training x vs. (Inr x, vs(m := add_scalar (vs m) 1))),
      gradient = (\<lambda>training x vs dy src. dy)\<rparr>"

text \<open>Weights 2 (variable 0) and 3 (variable 2); every other variable starts at 0.\<close>

definition initial_state :: state where
  "initial_state =
     \<lparr>var_values = (\<lambda>v. Tensor [] [if v = 0 then 2 else if v = 2 then 3 else 0]),
      f_non_trainable_vars = None,
      g_non_trainable_vars = None\<rparr>"

definition no_tape :: "tensor \<Rightarrow> source \<Rightarrow> tensor" where
  "no_tape dy src = dy"

text \<open>A stride-1, channel-preserving pair: the manual path applies.\<close>

definition scale_pair :: reversible_layer where
  "scale_pair = \<lparr>self_f = scale_layer 1 0 1, self_g = scale_layer 1 2 3,
                 self_manual_grads = True, self_axis = - 1\<rparr>"

text \<open>The same pair with an \<open>F\<close> that raises when it is called a second time.\<close>

definition flaky_pair :: reversible_layer where
  "flaky_pair = \<lparr>self_f = flaky_layer 1 0 1, self_g = scale_layer 1 2 3,
                 self_manual_grads = True, self_axis = - 1\<rparr>"

text \<open>A downsampling pair, as at the start of a block group: \<open>F\<close> has stride 2, \<open>G\<close> stride 1.\<close>

definition downsampling_pair :: reversible_layer where
  "downsampling_pair = \<lparr>self_f = downsampling_layer 1, self_g = identity_layer 3,
                        self_manual_grads = True, self_axis = - 1\<rparr>"

text \<open>
  Two more downsampling pairs: one whose \<open>F\<close> keeps the channel count, so that no shortcut
  is padded, and one whose \<open>F\<close> triples it, so that both shortcuts gain one channel of
  zeros on each side.
\<close>

definition pooling_pair :: reversible_layer where
  "pooling_pair = \<lparr>self_f = pooling_layer 1, self_g = identity_layer 3,
                   self_manual_grads = True, self_axis = - 1\<rparr>"

definition widening_pair :: reversible_layer where
  "widening_pair = \<lparr>self_f = widening_layer 1, self_g = identity_layer 3,
                    self_manual_grads = True, self_axis = - 1\<rparr>"

definition pixel :: tensor where
  "pixel = Tensor [1, 1, 1, 2] [1, 2]"

definition patch :: tensor where
  "patch = Tensor [1, 2, 2, 2] [1, 2, 3, 4, 5, 6, 7, 8]"

definition odd_patch :: tensor where
  "odd_patch = Tensor [1, 1, 1, 3] [1, 2, 3]"

section \<open>Properties\<close>

subsection \<open>Running actions\<close>

lemma then_do_Inr:
  "then_do m k s = (Inr b, s') \<longleftrightarrow> (\<exists>a s1. m s = (Inr a, s1) \<and> k a s1 = (Inr b, s'))"
  by (auto simp: then_do_def split: prod.splits sum.splits)

lemma then_do_Inl:
  "then_do m k s = (Inl e, s') \<longleftrightarrow>
     m s = (Inl e, s') \<or> (\<exists>a s1. m s = (Inr a, s1) \<and> k a s1 = (Inl e, s'))"
  by (auto simp: then_do_def split: prod.splits sum.splits)

lemma lift_Inr: "lift r s = (Inr a, s') \<longleftrightarrow> r = Inr a \<and> s' = s"
  by (auto simp: lift_def)

lemma lift_Inl: "lift r s = (Inl e, s') \<longleftrightarrow> r = Inl e \<and> s' = s"
  by (auto simp: lift_def)

lemma ret_Inr: "ret a s = (Inr b, s') \<longleftrightarrow> b = a \<and> s' = s"
  by (auto simp: ret_def)

lemma ret_Inl: "ret a s = (Inl e, s') \<longleftrightarrow> False"
  by (auto simp: ret_def)

lemma raise_Inr: "raise e s = (Inr b, s') \<longleftrightarrow> False"
  by (auto simp: raise_def)

lemma raise_Inl: "raise e s = (Inl e', s') \<longleftrightarrow> e' = e \<and> s' = s"
  by (auto simp: raise_def)

lemma get_vars_Inr: "get_vars s = (Inr st, s') \<longleftrightarrow> st = var_values s \<and> s' = s"
  by (auto simp: get_vars_def)

lemma get_vars_Inl: "get_vars s = (Inl e, s') \<longleftrightarrow> False"
  by (auto simp: get_vars_def)

lemma call_layer_Inr:
  "call_layer l tr x s = (Inr y, s') \<longleftrightarrow>
     (\<exists>st. call l tr x (var_values s) = (Inr y, st) \<and> s' = s\<lparr>var_values := st\<rparr>)"
  by (auto simp: call_layer_def split: prod.splits)

lemma call_layer_Inl:
  "call_layer l tr x s = (Inl e, s') \<longleftrightarrow>
     (\<exists>st. call l tr x (var_values s) = (Inl e, st) \<and> s' = s\<lparr>var_values := st\<rparr>)"
  by (auto simp: call_layer_def split: prod.splits)

lemma ckpt_Inr:
  "ckpt_non_trainable_vars self s = (Inr u, s') \<longleftrightarrow>
     s' = s\<lparr>f_non_trainable_vars :=
              Some (map (var_values s) (non_trainable_variables (self_f self))),
            g_non_trainable_vars :=
              Some (map (var_values s) (non_trainable_variables (self_g self)))\<rparr>"
  by (auto simp: ckpt_non_trainable_vars_def)

lemma succeeds:
  "(case m s of (Inl e, s') \<Rightarrow> False | (Inr a, s') \<Rightarrow> P a s')
     \<Longrightarrow> \<exists>a s'. m s = (Inr a, s') \<and> P a s'"
  by (auto split: prod.splits sum.splits)

lemma fails:
  "(case m s of (Inl e, s') \<Rightarrow> P e s' | (Inr a, s') \<Rightarrow> False)
     \<Longrightarrow> \<exists>e s'. m s = (Inl e, s') \<and> P e s'"
  by (auto split: prod.splits sum.splits)

subsection \<open>Lists\<close>

lemma list_index_Inr:
  "list_index us v = Inr j \<Longrightarrow> j < length us \<and> us ! j = v \<and> v \<notin> set (take j us)"
proof (induction us arbitrary: j)
  case Nil
  then show ?case by simp
next
  case (Cons u us)
  show ?case
  proof (cases "u = v")
    case True
    with Cons.prems show ?thesis by simp
  next
    case False
    with Cons.prems obtain i where i: "list_index us v = Inr i" and j: "j = Suc i"
      by (auto split: sum.splits)
    from Cons.IH[OF i] False j show ?thesis by simp
  qed
qed

lemma list_index_total: "v \<in> set us \<Longrightarrow> \<exists>j. list_index us v = Inr j"
  by (induction us) auto

lemma map_raising_Inr:
  "map_raising h as = Inr bs \<Longrightarrow>
     length bs = length as \<and> (\<forall>i<length as. h (as ! i) = Inr (bs ! i))"
proof (induction as arbitrary: bs)
  case Nil
  then show ?case by simp
next
  case (Cons a as)
  from Cons.prems obtain b bs' where b: "h a = Inr b" and bs': "map_raising h as = Inr bs'"
    and bs: "bs = b # bs'"
    by (auto split: sum.splits)
  from Cons.IH[OF bs'] b bs show ?case
    by (auto simp: nth_Cons split: nat.splits)
qed

lemma list_get_Inr: "list_get xs i = Inr a \<longleftrightarrow> i < length xs \<and> a = xs ! i"
  by (auto simp: list_get_def)

subsection \<open>Shapes\<close>

lemma length_indices: "length (indices sh) = prod_list sh"
proof (induction sh)
  case Nil
  then show ?case by simp
next
  case (Cons d ds)
  have "length (concat (map (\<lambda>i. map (\<lambda>r. i # r) (indices ds)) [0..<d]))
          = d * length (indices ds)"
    by (induction d) (simp_all add: length_concat)
  with Cons show ?case by simp
qed

lemma well_formed_build: "well_formed (build sh h)"
  by (simp add: well_formed_def build_def length_indices)

lemma shape_build: "shape (build sh h) = sh"
  by (simp add: build_def)

lemma py_axis_Inr: "py_axis n i = Inr k \<Longrightarrow> k < n"
  by (auto simp: py_axis_def Let_def split: if_splits)

lemma shape_at_Inr:
  "shape_at t ax = Inr n \<longleftrightarrow> (\<exists>k. py_axis (length (shape t)) ax = Inr k \<and> n = shape t ! k)"
  by (auto simp: shape_at_def split: sum.splits)

subsection \<open>What a successful forward pass computed\<close>

lemma reversible_Inr:
  assumes "reversible self training fwdtape x s = (Inr (y, c), s')"
  shows "\<exists>x1 x2 f_x2 st1 fc x1_down z1 g_z1 st2 gc x2_down y2 yc xc.
     tf_split2 x (self_axis self) = Inr (x1, x2)
   \<and> call (self_f self) training x2 (var_values s) = (Inr f_x2, st1)
   \<and> shape_at f_x2 (self_axis self) = Inr fc
   \<and> maybe_downsample x1 fc (strides (self_f self)) (self_axis self) = Inr x1_down
   \<and> tf_add f_x2 x1_down = Inr z1
   \<and> call (self_g self) training z1 st1 = (Inr g_z1, st2)
   \<and> shape_at g_z1 (self_axis self) = Inr gc
   \<and> maybe_downsample x2 gc (strides (self_f self)) (self_axis self) = Inr x2_down
   \<and> tf_add x2_down g_z1 = Inr y2
   \<and> tf_concat2 z1 y2 (self_axis self) = Inr y
   \<and> shape_at y (self_axis self) = Inr yc
   \<and> shape_at x (self_axis self) = Inr xc
   \<and> c = \<lparr>c_x = x, c_y = y, c_y1 = z1, c_y2 = y2,
          c_irreversible = ((strides (self_f self) \<noteq> 1 \<or> strides (self_g self) \<noteq> 1)
                            \<or> yc \<noteq> xc),
          c_training = training, c_fwdtape = fwdtape\<rparr>
   \<and> s' = s\<lparr>var_values := st2,
            f_non_trainable_vars := Some (map st2 (non_trainable_variables (self_f self))),
            g_non_trainable_vars := Some (map st2 (non_trainable_variables (self_g self)))\<rparr>"
  using assms unfolding reversible_def Let_def
  by (auto simp: then_do_Inr lift_Inr ret_Inr call_layer_Inr ckpt_Inr split: prod.splits)

subsection \<open>C10: the residual gate\<close>

text \<open>
  C10. In \<open>InvertedBottleneckBlock\<close> and \<open>TuckerConvBlock\<close> the input is added to the main
  branch exactly when \<open>use_residual\<close> holds, \<open>in_filters\<close> equals \<open>out_filters\<close> and
  \<open>strides\<close> is 1; otherwise the output is the main branch alone. Stochastic depth (when
  the block has one) is applied to the main branch inside that gate only.
\<close>

theorem residual_gate:
  "output_tensor (InvertedBottleneckBlock_call b x training) =
     (if ib_use_residual b \<and> ib_in_filters b = ib_out_filters b \<and> ib_strides b = 1
      then ib_add b (apply_stochastic_depth (ib_stochastic_depth b) training
                       (InvertedBottleneckBlock_main b x)) x
      else InvertedBottleneckBlock_main b x)
   \<and> TuckerConvBlock_call t x training =
     (if tk_use_residual t \<and> tk_in_filters t = tk_out_filters t \<and> tk_strides t = 1
      then tk_add t (apply_stochastic_depth (tk_stochastic_depth t) training
                       (TuckerConvBlock_main t x)) x
      else TuckerConvBlock_main t x)"
proof
  show "output_tensor (InvertedBottleneckBlock_call b x training) =
     (if ib_use_residual b \<and> ib_in_filters b = ib_out_filters b \<and> ib_strides b = 1
      then ib_add b (apply_stochastic_depth (ib_stochastic_depth b) training
                       (InvertedBottleneckBlock_main b x)) x
      else InvertedBottleneckBlock_main b x)"
    by (simp add: InvertedBottleneckBlock_call_def InvertedBottleneckBlock_main_def
          apply_stochastic_depth_def Let_def split: option.splits)
next
  show "TuckerConvBlock_call t x training =
     (if tk_use_residual t \<and> tk_in_filters t = tk_out_filters t \<and> tk_strides t = 1
      then tk_add t (apply_stochastic_depth (tk_stochastic_depth t) training
                       (TuckerConvBlock_main t x)) x
      else TuckerConvBlock_main t x)"
    by (simp add: TuckerConvBlock_call_def TuckerConvBlock_main_def
          apply_stochastic_depth_def Let_def split: option.splits)
qed

subsection \<open>C9: configuration round trip\<close>

text \<open>
  C9. Every block is meant to come back from \<open>get_config\<close> with each constructor option
  unchanged. \<open>DepthwiseSeparableConvBlock.get_config\<close> exports neither \<open>kernel_size\<close> nor
  \<open>dilation_rate\<close>: a block built with kernel size 5 and dilation rate 2 comes back with
  the defaults 3 and 1, while the options that are exported survive.
\<close>

theorem depthwise_separable_round_trip:
  "map_sum id (\<lambda>b. (dsc_filters b, dsc_kernel_size b, dsc_dilation_rate b))
     (DepthwiseSeparableConvBlock_from_config
        (DepthwiseSeparableConvBlock_get_config
           (DepthwiseSeparableConvBlock_init (PInt 8) (PInt 5) (PInt 1) (PBool False)
              (PStr ''relu6'') (PStr ''VarianceScaling'') PNone (PInt 2) (PBool False)
              (PFloat (99 / 100)) (PFloat (1 / 1000)) Map.empty)))
   = Inr (PInt 8, PInt 3, PInt 1)"
  by (simp add: DepthwiseSeparableConvBlock_from_config_def
        DepthwiseSeparableConvBlock_get_config_def DepthwiseSeparableConvBlock_init_def
        keyword_def)

text \<open>
  For every choice of options the rebuilt block is the original with \<open>kernel_size\<close> and
  \<open>dilation_rate\<close> replaced by their defaults: these two are all that is lost.
\<close>

lemma depthwise_separable_round_trip_general:
  assumes "\<forall>k \<in> set dsc_parameters. kwargs k = None"
  shows "DepthwiseSeparableConvBlock_from_config
           (DepthwiseSeparableConvBlock_get_config
              (DepthwiseSeparableConvBlock_init filters kernel_size st regularize_depthwise
                 activation kernel_initializer kernel_regularizer dilation_rate use_sync_bn
                 norm_momentum norm_epsilon kwargs))
         = Inr (DepthwiseSeparableConvBlock_init filters (PInt 3) st regularize_depthwise
                  activation kernel_initializer kernel_regularizer (PInt 1) use_sync_bn
                  norm_momentum norm_epsilon kwargs)"
proof -
  let ?b = "DepthwiseSeparableConvBlock_init filters kernel_size st regularize_depthwise
              activation kernel_initializer kernel_regularizer dilation_rate use_sync_bn
              norm_momentum norm_epsilon kwargs"
  let ?cfg = "DepthwiseSeparableConvBlock_get_config ?b"
  have rest: "(\<lambda>k. if k \<in> set dsc_parameters then None else ?cfg k) = kwargs"
  proof
    fix k
    show "(if k \<in> set dsc_parameters then None else ?cfg k) = kwargs k"
      using assms
      by (auto simp: DepthwiseSeparableConvBlock_get_config_def
            DepthwiseSeparableConvBlock_init_def dsc_parameters_def map_add_def)
  qed
  from assms have ks: "?cfg ''kernel_size'' = None" and dr: "?cfg ''dilation_rate'' = None"
    by (simp_all add: DepthwiseSeparableConvBlock_get_config_def
          DepthwiseSeparableConvBlock_init_def dsc_parameters_def map_add_def)
  have "DepthwiseSeparableConvBlock_from_config ?cfg
      = Inr (DepthwiseSeparableConvBlock_init filters (PInt 3) st regularize_depthwise
                  activation kernel_initializer kernel_regularizer (PInt 1) use_sync_bn
                  norm_momentum norm_epsilon
                  (\<lambda>k. if k \<in> set dsc_parameters then None else ?cfg k))"
    unfolding DepthwiseSeparableConvBlock_from_config_def
    using ks dr
    by (simp add: keyword_def DepthwiseSeparableConvBlock_get_config_def
          DepthwiseSeparableConvBlock_init_def)
  with rest show ?thesis by simp
qed

subsection \<open>C8: the channel split\<close>

lemma tf_split2_even:
  assumes "shape_at x ax = Inr n" and "even n"
  shows "\<exists>x1 x2. tf_split2 x ax = Inr (x1, x2)
           \<and> shape_at x1 ax = Inr (n div 2) \<and> shape_at x2 ax = Inr (n div 2)
           \<and> shape x1 = shape x2 \<and> well_formed x1 \<and> well_formed x2"
proof -
  from assms(1) obtain k where k: "py_axis (length (shape x)) ax = Inr k"
    and n: "n = shape x ! k"
    by (auto simp: shape_at_Inr)
  from k have lt: "k < length (shape x)" by (rule py_axis_Inr)
  from assms(2) n have "shape x ! k mod 2 = 0" by presburger
  with k n lt show ?thesis
    by (simp add: tf_split2_def Let_def shape_at_def shape_build well_formed_build)
qed

lemma tf_split2_odd:
  assumes "shape_at x ax = Inr n" and "odd n"
  shows "tf_split2 x ax = Inl InvalidArgumentError"
proof -
  from assms(1) obtain k where k: "py_axis (length (shape x)) ax = Inr k"
    and n: "n = shape x ! k"
    by (auto simp: shape_at_Inr)
  from assms(2) n have "shape x ! k mod 2 \<noteq> 0" by presburger
  with k show ?thesis
    by (simp add: tf_split2_def Let_def)
qed

text \<open>
  C8. With \<open>n\<close> the size of the input on the channel axis: when \<open>n\<close> is odd the forward
  call raises at the split, before \<open>F\<close> or \<open>G\<close> is called, so no variable and no snapshot
  has changed; when \<open>n\<close> is even the split yields two well-formed tensors of the same
  shape with \<open>n div 2\<close> channels each.
\<close>

theorem channel_split:
  assumes "shape_at x (self_axis self) = Inr n"
  shows "(odd n \<longrightarrow> reversible self training fwdtape x s = (Inl InvalidArgumentError, s))
       \<and> (even n \<longrightarrow>
            (\<exists>x1 x2. tf_split2 x (self_axis self) = Inr (x1, x2)
               \<and> shape_at x1 (self_axis self) = Inr (n div 2)
               \<and> shape_at x2 (self_axis self) = Inr (n div 2)
               \<and> shape x1 = shape x2 \<and> well_formed x1 \<and> well_formed x2))"
proof (intro conjI impI)
  assume "odd n"
  with assms have "tf_split2 x (self_axis self) = Inl InvalidArgumentError"
    by (rule tf_split2_odd)
  then show "reversible self training fwdtape x s = (Inl InvalidArgumentError, s)"
    by (simp add: reversible_def then_do_def lift_def)
next
  assume "even n"
  with assms show "\<exists>x1 x2. tf_split2 x (self_axis self) = Inr (x1, x2)
               \<and> shape_at x1 (self_axis self) = Inr (n div 2)
               \<and> shape_at x2 (self_axis self) = Inr (n div 2)
               \<and> shape x1 = shape x2 \<and> well_formed x1 \<and> well_formed x2"
    by (rule tf_split2_even)
qed

theorem channel_split_witness:
  "reversible scale_pair None no_tape odd_patch initial_state
     = (Inl InvalidArgumentError, initial_state)
   \<and> (\<exists>x1 x2. tf_split2 pixel (self_axis scale_pair) = Inr (x1, x2)
        \<and> shape_at x1 (self_axis scale_pair) = Inr 1
        \<and> shape_at x2 (self_axis scale_pair) = Inr 1
        \<and> shape x1 = shape x2 \<and> well_formed x1 \<and> well_formed x2)"
proof -
  have odd_shape: "shape_at odd_patch (self_axis scale_pair) = Inr 3"
    by (simp add: shape_at_def py_axis_def odd_patch_def scale_pair_def)
  have even_shape: "shape_at pixel (self_axis scale_pair) = Inr 2"
    by (simp add: shape_at_def py_axis_def pixel_def scale_pair_def)
  from channel_split[OF odd_shape, of None no_tape initial_state]
  have "reversible scale_pair None no_tape odd_patch initial_state
          = (Inl InvalidArgumentError, initial_state)"
    by simp
  moreover from channel_split[OF even_shape, of None no_tape initial_state]
  have "\<exists>x1 x2. tf_split2 pixel (self_axis scale_pair) = Inr (x1, x2)
        \<and> shape_at x1 (self_axis scale_pair) = Inr 1
        \<and> shape_at x2 (self_axis scale_pair) = Inr 1
        \<and> shape x1 = shape x2 \<and> well_formed x1 \<and> well_formed x2"
    by simp
  ultimately show ?thesis by blast
qed

subsection \<open>C4: which backward strategy runs\<close>

text \<open>
  C4. After a forward call on \<open>x\<close> with output \<open>y\<close>, the backward function takes the
  automatic-differentiation branch if and only if the stride of \<open>F\<close> is not 1, or the
  stride of \<open>G\<close> is not 1, or \<open>y\<close> and \<open>x\<close> differ in channel count, or manual gradients are
  disabled; otherwise it takes the manual branch. The first three conditions are those
  of the forward call: \<open>grad_fn\<close> reads the flag stored in its closure, so the same holds
  whatever the layer object \<open>self'\<close> looks like when the backward pass runs; only
  \<open>manual_grads\<close> is read then.
\<close>

theorem backward_strategy_iff:
  assumes "reversible self training fwdtape x s = (Inr (y, c), s1)"
  shows "\<exists>xc yc. shape_at x (self_axis self) = Inr xc
           \<and> shape_at y (self_axis self) = Inr yc
           \<and> (backward_strategy self' c = Autodiff \<longleftrightarrow>
                strides (self_f self) \<noteq> 1 \<or> strides (self_g self) \<noteq> 1 \<or> yc \<noteq> xc
                \<or> \<not> self_manual_grads self')
           \<and> grad_fn self' c dy variables =
                (if strides (self_f self) \<noteq> 1 \<or> strides (self_g self) \<noteq> 1 \<or> yc \<noteq> xc
                    \<or> \<not> self_manual_grads self'
                 then grad_fn_autodiff c dy variables
                 else grad_fn_manual self' c dy variables)"
proof -
  from reversible_Inr[OF assms] obtain yc xc where
    yc: "shape_at y (self_axis self) = Inr yc" and
    xc: "shape_at x (self_axis self) = Inr xc" and
    flag: "c_irreversible c =
             ((strides (self_f self) \<noteq> 1 \<or> strides (self_g self) \<noteq> 1) \<or> yc \<noteq> xc)"
    by auto
  from flag have
    "backward_strategy self' c = Autodiff \<longleftrightarrow>
       strides (self_f self) \<noteq> 1 \<or> strides (self_g self) \<noteq> 1 \<or> yc \<noteq> xc
       \<or> \<not> self_manual_grads self'"
    by (auto simp: backward_strategy_def)
  moreover from flag have
    "grad_fn self' c dy variables =
       (if strides (self_f self) \<noteq> 1 \<or> strides (self_g self) \<noteq> 1 \<or> yc \<noteq> xc
           \<or> \<not> self_manual_grads self'
        then grad_fn_autodiff c dy variables
        else grad_fn_manual self' c dy variables)"
    by (auto simp: grad_fn_def backward_strategy_def)
  ultimately show ?thesis using xc yc by blast
qed

theorem backward_strategy_iff_witness:
  "(\<exists>y c s1. reversible scale_pair None no_tape pixel initial_state = (Inr (y, c), s1)
       \<and> backward_strategy scale_pair c = Manual)
   \<and> (\<exists>y c s1. reversible downsampling_pair None no_tape patch initial_state
                   = (Inr (y, c), s1)
       \<and> backward_strategy downsampling_pair c = Autodiff)"
proof
  have "case reversible scale_pair None no_tape pixel initial_state of
          (Inl e, s') \<Rightarrow> False
        | (Inr a, s') \<Rightarrow> fst a = Tensor [1, 1, 1, 2] [5, 17]"
    by code_simp
  then obtain y c s1 where
    fwd: "reversible scale_pair None no_tape pixel initial_state = (Inr (y, c), s1)"
    and y: "y = Tensor [1, 1, 1, 2] [5, 17]"
    by (auto dest!: succeeds)
  from backward_strategy_iff[OF fwd, of scale_pair] y
  have "backward_strategy scale_pair c \<noteq> Autodiff"
    by (auto simp: shape_at_def py_axis_def pixel_def scale_pair_def scale_layer_def)
  then have "backward_strategy scale_pair c = Manual"
    by (cases "backward_strategy scale_pair c") auto
  with fwd show "\<exists>y c s1. reversible scale_pair None no_tape pixel initial_state
                   = (Inr (y, c), s1) \<and> backward_strategy scale_pair c = Manual"
    by blast
next
  have "case reversible downsampling_pair None no_tape patch initial_state of
          (Inl e, s') \<Rightarrow> False
        | (Inr a, s') \<Rightarrow> True"
    by code_simp
  then obtain y c s1 where
    fwd: "reversible downsampling_pair None no_tape patch initial_state = (Inr (y, c), s1)"
    by (auto dest!: succeeds)
  from backward_strategy_iff[OF fwd, of downsampling_pair]
  have "backward_strategy downsampling_pair c = Autodiff"
    by (auto simp: downsampling_pair_def downsampling_layer_def)
  with fwd show "\<exists>y c s1. reversible downsampling_pair None no_tape patch initial_state
                   = (Inr (y, c), s1) \<and> backward_strategy downsampling_pair c = Autodiff"
    by blast
qed

subsection \<open>What a successful manual backward pass computed\<close>

lemma grad_fn_manual_Inr:
  assumes "grad_fn_manual self c dy variables s = (Inr (dx, gv), s')"
  shows "\<exists>dy1 dy2 vl idx g_z1 st_g x2 f_x2 st_f x1 dz1 dx2.
     tf_split2 dy (self_axis self) = Inr (dy1, dy2)
   \<and> variables = Some vl
   \<and> map_raising (list_index (trainable_variables (self_f self)
                                @ trainable_variables (self_g self))) vl = Inr idx
   \<and> call (self_g self) (c_training c) (c_y1 c) (var_values s) = (Inr g_z1, st_g)
   \<and> tf_sub (c_y2 c) g_z1 = Inr x2
   \<and> call (self_f self) (c_training c) x2 st_g = (Inr f_x2, st_f)
   \<and> tf_sub (c_y1 c) f_x2 = Inr x1
   \<and> tf_add dy1 (gradient (self_g self) (c_training c) (c_y1 c) (var_values s) dy2 Input)
        = Inr dz1
   \<and> tf_add dy2 (gradient (self_f self) (c_training c) x2 st_g dz1 Input) = Inr dx2
   \<and> tf_concat2 dz1 dx2 (self_axis self) = Inr dx
   \<and> map_raising
        (list_get
           (map (gradient (self_f self) (c_training c) x2 st_g dz1)
                (map Var (trainable_variables (self_f self)))
            @ map (gradient (self_g self) (c_training c) (c_y1 c) (var_values s) dy2)
                  (map Var (trainable_variables (self_g self))))) idx = Inr gv
   \<and> load_ckpt_non_trainable_vars self (s\<lparr>var_values := st_f\<rparr>) = (Inr (), s')"
  using assms unfolding grad_fn_manual_def Let_def
  by (auto simp: then_do_Inr lift_Inr ret_Inr raise_Inr call_layer_Inr get_vars_Inr
           split: prod.splits option.splits)

lemma grad_fn_Manual:
  "backward_strategy self c = Manual \<Longrightarrow>
     grad_fn self c dy variables = grad_fn_manual self c dy variables"
  by (simp add: grad_fn_def)

lemma assign_all_zip_map:
  "assign_all (zip vs (map h vs)) st v = (if v \<in> set vs then h v else st v)"
  by (induction vs arbitrary: st) auto

lemma load_ckpt_Inr:
  assumes "load_ckpt_non_trainable_vars self s = (Inr u, s')"
      and "f_non_trainable_vars s = Some (map h (non_trainable_variables (self_f self)))"
      and "g_non_trainable_vars s = Some (map h (non_trainable_variables (self_g self)))"
  shows "var_values s' v =
           (if v \<in> set (non_trainable_variables (self_f self))
                    \<union> set (non_trainable_variables (self_g self))
            then h v else var_values s v)"
  using assms
  by (auto simp: load_ckpt_non_trainable_vars_def Let_def assign_all_zip_map
           split: option.splits)

subsection \<open>C2: the statistics after the backward pass\<close>

text \<open>
  C2. Take a forward call that ends in state \<open>s1\<close>, where the snapshot is taken, and a
  backward call on the manual path that starts in any state \<open>sb\<close> still holding that
  snapshot (\<open>sb = s1\<close> when nothing ran in between) and runs to completion in \<open>s2\<close>. Then
  every non-trainable variable of \<open>F\<close> and of \<open>G\<close> has in \<open>s2\<close> the value it had in \<open>s1\<close>,
  whatever the recomputation of \<open>F\<close> and \<open>G\<close> wrote.
\<close>

theorem backward_restores_statistics:
  assumes fwd: "reversible self training fwdtape x s = (Inr (y, c), s1)"
      and snap_f: "f_non_trainable_vars sb = f_non_trainable_vars s1"
      and snap_g: "g_non_trainable_vars sb = g_non_trainable_vars s1"
      and manual: "backward_strategy self c = Manual"
      and bwd: "grad_fn self c dy variables sb = (Inr r, s2)"
  shows "\<forall>v \<in> set (non_trainable_variables (self_f self))
              \<union> set (non_trainable_variables (self_g self)).
           var_values s2 v = var_values s1 v"
proof -
  from reversible_Inr[OF fwd] have
    f1: "f_non_trainable_vars s1
           = Some (map (var_values s1) (non_trainable_variables (self_f self)))" and
    g1: "g_non_trainable_vars s1
           = Some (map (var_values s1) (non_trainable_variables (self_g self)))"
    by auto
  obtain dx gv where r: "r = (dx, gv)" by (cases r)
  from bwd manual r have "grad_fn_manual self c dy variables sb = (Inr (dx, gv), s2)"
    by (simp add: grad_fn_Manual)
  from grad_fn_manual_Inr[OF this] obtain st_f where
    load: "load_ckpt_non_trainable_vars self (sb\<lparr>var_values := st_f\<rparr>) = (Inr (), s2)"
    by blast
  have "var_values s2 v =
          (if v \<in> set (non_trainable_variables (self_f self))
                   \<union> set (non_trainable_variables (self_g self))
           then var_values s1 v else var_values (sb\<lparr>var_values := st_f\<rparr>) v)" for v
    by (rule load_ckpt_Inr[OF load]) (simp_all add: snap_f snap_g f1 g1)
  then show ?thesis by simp
qed

theorem backward_restores_statistics_witness:
  "\<exists>y c s1 r s2.
     reversible scale_pair None no_tape pixel initial_state = (Inr (y, c), s1)
   \<and> grad_fn scale_pair c (Tensor [1, 1, 1, 2] [1, 1]) (Some [2, 0]) s1 = (Inr r, s2)
   \<and> var_values s1 1 = Tensor [] [1] \<and> var_values s1 3 = Tensor [] [1]
   \<and> var_values s2 1 = Tensor [] [1] \<and> var_values s2 3 = Tensor [] [1]"
proof -
  have "case reversible scale_pair None no_tape pixel initial_state of
          (Inl e, s1) \<Rightarrow> False
        | (Inr a, s1) \<Rightarrow>
            backward_strategy scale_pair (snd a) = Manual
          \<and> var_values s1 1 = Tensor [] [1] \<and> var_values s1 3 = Tensor [] [1]
          \<and> (case grad_fn scale_pair (snd a) (Tensor [1, 1, 1, 2] [1, 1]) (Some [2, 0]) s1 of
               (Inl e, s2) \<Rightarrow> False
             | (Inr r, s2) \<Rightarrow> True)"
    by code_simp
  then obtain y c s1 r s2 where
    fwd: "reversible scale_pair None no_tape pixel initial_state = (Inr (y, c), s1)" and
    manual: "backward_strategy scale_pair c = Manual" and
    v1: "var_values s1 1 = Tensor [] [1]" "var_values s1 3 = Tensor [] [1]" and
    bwd: "grad_fn scale_pair c (Tensor [1, 1, 1, 2] [1, 1]) (Some [2, 0]) s1 = (Inr r, s2)"
    by (auto dest!: succeeds)
  from backward_restores_statistics[OF fwd refl refl manual bwd]
  have "var_values s2 1 = var_values s1 1" "var_values s2 3 = var_values s1 3"
    by (simp_all add: scale_pair_def scale_layer_def)
  with fwd bwd v1 show ?thesis by auto
qed

subsection \<open>C5: the algebra of the manual backward pass\<close>

lemma map_raising_list_get:
  "map_raising (list_get xs) idx = Inr ys \<Longrightarrow>
     ys = map (\<lambda>i. xs ! i) idx \<and> list_all (\<lambda>i. i < length xs) idx"
proof (induction idx arbitrary: ys)
  case Nil
  then show ?case by simp
next
  case (Cons i idx)
  from Cons.prems obtain ys' where i: "i < length xs"
    and ys': "map_raising (list_get xs) idx = Inr ys'" and ys: "ys = xs ! i # ys'"
    by (auto simp: list_get_Inr split: sum.splits)
  from Cons.IH[OF ys'] i ys show ?case by simp
qed

lemma reorder_nth:
  assumes "list_index (fs @ gs) v = Inr j"
  shows "(map hf fs @ map hg gs) ! j = (if v \<in> set fs then hf v else hg v)"
proof -
  from list_index_Inr[OF assms] have
    j: "j < length (fs @ gs)" and at: "(fs @ gs) ! j = v" and
    first: "v \<notin> set (take j (fs @ gs))"
    by auto
  show ?thesis
  proof (cases "j < length fs")
    case True
    with at have "fs ! j = v" by (simp add: nth_append)
    with True have "v \<in> set fs" by auto
    with True \<open>fs ! j = v\<close> show ?thesis by (simp add: nth_append)
  next
    case False
    with first have "v \<notin> set fs" by simp
    moreover from False j at have "gs ! (j - length fs) = v" "j - length fs < length gs"
      by (simp_all add: nth_append)
    ultimately show ?thesis using False by (simp add: nth_append)
  qed
qed

text \<open>
  C5. When the manual branch returns the input gradient \<open>dx\<close> and the parameter gradients
  \<open>gv\<close> for the requested variables \<open>vl\<close>: \<open>dy\<close> was split into \<open>dy1\<close> and \<open>dy2\<close>; \<open>G\<close> was
  called again on the saved \<open>y1\<close> and \<open>x2\<close> is the saved \<open>y2\<close> minus that result; \<open>F\<close> was
  called again on \<open>x2\<close>; \<open>dz1 = dy1 + \<close> (gradient of \<open>G\<close>'s recorded call with respect to
  its input, for output gradient \<open>dy2\<close>); \<open>dx2 = dy2 + \<close> (gradient of \<open>F\<close>'s recorded call
  with respect to its input, for output gradient \<open>dz1\<close>); \<open>dx\<close> is the concatenation of
  \<open>dz1\<close> (which is \<open>dx1\<close>) and \<open>dx2\<close> on the channel axis. The parameter gradients \<open>dwg\<close>
  are those of \<open>G\<close>'s recorded call for output gradient \<open>dy2\<close>, one for each trainable
  variable of \<open>G\<close>, and \<open>dwf\<close> those of \<open>F\<close>'s recorded call for output gradient \<open>dz1\<close>.
  The returned list \<open>gv\<close> has one entry for each requested variable: the entry of
  \<open>dwf + dwg\<close> at the position that \<open>list.index\<close> finds for that variable, which is \<open>F\<close>'s
  gradient for a variable of \<open>F\<close> and \<open>G\<close>'s gradient otherwise.
\<close>

theorem manual_backward_algebra:
  assumes manual: "backward_strategy self c = Manual"
      and bwd: "grad_fn self c dy variables s = (Inr (dx, gv), s')"
  shows "\<exists>dy1 dy2 g_z1 st_g x2 f_x2 st_f dz1 dx2 vl idx dwf dwg.
     tf_split2 dy (self_axis self) = Inr (dy1, dy2)
   \<and> call (self_g self) (c_training c) (c_y1 c) (var_values s) = (Inr g_z1, st_g)
   \<and> tf_sub (c_y2 c) g_z1 = Inr x2
   \<and> call (self_f self) (c_training c) x2 st_g = (Inr f_x2, st_f)
   \<and> tf_add dy1 (gradient (self_g self) (c_training c) (c_y1 c) (var_values s) dy2 Input)
        = Inr dz1
   \<and> tf_add dy2 (gradient (self_f self) (c_training c) x2 st_g dz1 Input) = Inr dx2
   \<and> tf_concat2 dz1 dx2 (self_axis self) = Inr dx
   \<and> dwg = map (\<lambda>v. gradient (self_g self) (c_training c) (c_y1 c) (var_values s) dy2
                        (Var v))
                (trainable_variables (self_g self))
   \<and> dwf = map (\<lambda>v. gradient (self_f self) (c_training c) x2 st_g dz1 (Var v))
                (trainable_variables (self_f self))
   \<and> variables = Some vl
   \<and> map_raising (list_index (trainable_variables (self_f self)
                                @ trainable_variables (self_g self))) vl = Inr idx
   \<and> gv = map (\<lambda>i. (dwf @ dwg) ! i) idx
   \<and> list_all (\<lambda>i. i < length (dwf @ dwg)) idx
   \<and> length gv = length vl
   \<and> (\<forall>i<length vl.
         gv ! i =
           (if vl ! i \<in> set (trainable_variables (self_f self))
            then gradient (self_f self) (c_training c) x2 st_g dz1 (Var (vl ! i))
            else gradient (self_g self) (c_training c) (c_y1 c) (var_values s) dy2
                   (Var (vl ! i))))"
proof -
  let ?fg = "trainable_variables (self_f self) @ trainable_variables (self_g self)"
  from bwd manual have "grad_fn_manual self c dy variables s = (Inr (dx, gv), s')"
    by (simp add: grad_fn_Manual)
  from grad_fn_manual_Inr[OF this] obtain dy1 dy2 vl idx g_z1 st_g x2 f_x2 st_f dz1 dx2
    where
    split: "tf_split2 dy (self_axis self) = Inr (dy1, dy2)" and
    vl: "variables = Some vl" and
    idx: "map_raising (list_index ?fg) vl = Inr idx" and
    g: "call (self_g self) (c_training c) (c_y1 c) (var_values s) = (Inr g_z1, st_g)" and
    x2: "tf_sub (c_y2 c) g_z1 = Inr x2" and
    f: "call (self_f self) (c_training c) x2 st_g = (Inr f_x2, st_f)" and
    dz1: "tf_add dy1 (gradient (self_g self) (c_training c) (c_y1 c) (var_values s) dy2 Input)
            = Inr dz1" and
    dx2: "tf_add dy2 (gradient (self_f self) (c_training c) x2 st_g dz1 Input) = Inr dx2" and
    dx: "tf_concat2 dz1 dx2 (self_axis self) = Inr dx" and
    gv: "map_raising
           (list_get
              (map (gradient (self_f self) (c_training c) x2 st_g dz1)
                   (map Var (trainable_variables (self_f self)))
               @ map (gradient (self_g self) (c_training c) (c_y1 c) (var_values s) dy2)
                     (map Var (trainable_variables (self_g self))))) idx = Inr gv"
    by blast
  define dwf where
    "dwf = map (\<lambda>v. gradient (self_f self) (c_training c) x2 st_g dz1 (Var v))
               (trainable_variables (self_f self))"
  define dwg where
    "dwg = map (\<lambda>v. gradient (self_g self) (c_training c) (c_y1 c) (var_values s) dy2
                       (Var v))
               (trainable_variables (self_g self))"
  from map_raising_list_get[OF gv] have
    gv_eq: "gv = map (\<lambda>i. (dwf @ dwg) ! i) idx" and
    bound: "list_all (\<lambda>i. i < length (dwf @ dwg)) idx"
    by (simp_all add: comp_def dwf_def dwg_def)
  from map_raising_Inr[OF idx] have
    len: "length idx = length vl" and
    each: "\<forall>i<length vl. list_index ?fg (vl ! i) = Inr (idx ! i)"
    by auto
  from gv_eq len have len_gv: "length gv = length vl" by simp
  have entry: "gv ! i =
           (if vl ! i \<in> set (trainable_variables (self_f self))
            then gradient (self_f self) (c_training c) x2 st_g dz1 (Var (vl ! i))
            else gradient (self_g self) (c_training c) (c_y1 c) (var_values s) dy2
                   (Var (vl ! i)))"
    if i: "i < length vl" for i
  proof -
    from each i have j: "list_index ?fg (vl ! i) = Inr (idx ! i)" by simp
    from gv_eq i len have nth: "gv ! i = (dwf @ dwg) ! (idx ! i)" by simp
    have "(dwf @ dwg) ! (idx ! i) =
           (if vl ! i \<in> set (trainable_variables (self_f self))
            then gradient (self_f self) (c_training c) x2 st_g dz1 (Var (vl ! i))
            else gradient (self_g self) (c_training c) (c_y1 c) (var_values s) dy2
                   (Var (vl ! i)))"
      unfolding dwf_def dwg_def by (rule reorder_nth[OF j])
    with nth show ?thesis by simp
  qed
  from split g x2 f dz1 dx2 dx dwg_def dwf_def vl idx gv_eq bound len_gv entry
  show ?thesis by blast
qed

theorem manual_backward_algebra_witness:
  "\<exists>y c s1 dx gv s2.
     reversible scale_pair None no_tape pixel initial_state = (Inr (y, c), s1)
   \<and> grad_fn scale_pair c (Tensor [1, 1, 1, 2] [1, 1]) (Some [2, 0]) s1 = (Inr (dx, gv), s2)
   \<and> dx = Tensor [1, 1, 1, 2] [4, 9]
   \<and> gv = [Tensor [] [5], Tensor [] [8]]
   \<and> (\<exists>dz1 dx2 idx.
         tf_concat2 dz1 dx2 (self_axis scale_pair) = Inr dx
       \<and> map_raising (list_index (trainable_variables (self_f scale_pair)
                                    @ trainable_variables (self_g scale_pair))) [2, 0]
            = Inr idx
       \<and> length gv = length idx)"
proof -
  have "case reversible scale_pair None no_tape pixel initial_state of
          (Inl e, s1) \<Rightarrow> False
        | (Inr a, s1) \<Rightarrow>
            backward_strategy scale_pair (snd a) = Manual
          \<and> (case grad_fn scale_pair (snd a) (Tensor [1, 1, 1, 2] [1, 1]) (Some [2, 0]) s1 of
               (Inl e, s2) \<Rightarrow> False
             | (Inr r, s2) \<Rightarrow> fst r = Tensor [1, 1, 1, 2] [4, 9]
                                \<and> snd r = [Tensor [] [5], Tensor [] [8]])"
    by code_simp
  then obtain y c s1 dx gv s2 where
    fwd: "reversible scale_pair None no_tape pixel initial_state = (Inr (y, c), s1)" and
    manual: "backward_strategy scale_pair c = Manual" and
    bwd: "grad_fn scale_pair c (Tensor [1, 1, 1, 2] [1, 1]) (Some [2, 0]) s1
            = (Inr (dx, gv), s2)" and
    dx: "dx = Tensor [1, 1, 1, 2] [4, 9]" and
    gv: "gv = [Tensor [] [5], Tensor [] [8]]"
    by (auto dest!: succeeds)
  from manual_backward_algebra[OF manual bwd] obtain dz1 dx2 vl idx where
    cat: "tf_concat2 dz1 dx2 (self_axis scale_pair) = Inr dx" and
    vl: "Some [2, 0] = Some vl" and
    idx: "map_raising (list_index (trainable_variables (self_f scale_pair)
                                    @ trainable_variables (self_g scale_pair))) vl = Inr idx"
    and len: "length gv = length vl"
    by blast
  from map_raising_Inr[OF idx] len have "length gv = length idx" by simp
  with fwd bwd dx gv cat vl idx show ?thesis by auto
qed

subsection \<open>C6: the order of the parameter gradients\<close>

text \<open>
  C6. When the manual branch returns the parameter gradients \<open>gv\<close> for the requested list
  \<open>vl\<close>: \<open>gv\<close> is as long as \<open>vl\<close>, and for every position \<open>i\<close> the variable \<open>vl ! i\<close> occurs in
  the list of \<open>F\<close>'s trainable variables followed by \<open>G\<close>'s, first at some position \<open>j\<close>,
  and \<open>gv ! i\<close> is entry \<open>j\<close> of \<open>dwf + dwg\<close>: the gradient of \<open>F\<close>'s recomputation with respect
  to \<open>vl ! i\<close> when that is a variable of \<open>F\<close>, and that of \<open>G\<close>'s recomputation otherwise.
\<close>

theorem gradients_follow_requested_order:
  assumes manual: "backward_strategy self c = Manual"
      and bwd: "grad_fn self c dy (Some vl) s = (Inr (dx, gv), s')"
  shows "\<exists>dy1 dy2 g_z1 st_g x2 dz1.
     tf_split2 dy (self_axis self) = Inr (dy1, dy2)
   \<and> call (self_g self) (c_training c) (c_y1 c) (var_values s) = (Inr g_z1, st_g)
   \<and> tf_sub (c_y2 c) g_z1 = Inr x2
   \<and> tf_add dy1 (gradient (self_g self) (c_training c) (c_y1 c) (var_values s) dy2 Input)
        = Inr dz1
   \<and> length gv = length vl
   \<and> (\<forall>i<length vl.
        \<exists>j. list_index (trainable_variables (self_f self)
                          @ trainable_variables (self_g self)) (vl ! i) = Inr j
          \<and> (trainable_variables (self_f self) @ trainable_variables (self_g self)) ! j
              = vl ! i
          \<and> gv ! i =
              (map (\<lambda>v. gradient (self_f self) (c_training c) x2 st_g dz1 (Var v))
                   (trainable_variables (self_f self))
               @ map (\<lambda>v. gradient (self_g self) (c_training c) (c_y1 c)
                             (var_values s) dy2 (Var v))
                     (trainable_variables (self_g self))) ! j
          \<and> gv ! i =
              (if vl ! i \<in> set (trainable_variables (self_f self))
               then gradient (self_f self) (c_training c) x2 st_g dz1 (Var (vl ! i))
               else gradient (self_g self) (c_training c) (c_y1 c) (var_values s) dy2
                      (Var (vl ! i))))"
proof -
  let ?fg = "trainable_variables (self_f self) @ trainable_variables (self_g self)"
  from bwd manual have "grad_fn_manual self c dy (Some vl) s = (Inr (dx, gv), s')"
    by (simp add: grad_fn_Manual)
  from grad_fn_manual_Inr[OF this] obtain dy1 dy2 idx g_z1 st_g x2 dz1 where
    split: "tf_split2 dy (self_axis self) = Inr (dy1, dy2)" and
    idx: "map_raising (list_index ?fg) vl = Inr idx" and
    g: "call (self_g self) (c_training c) (c_y1 c) (var_values s) = (Inr g_z1, st_g)" and
    x2: "tf_sub (c_y2 c) g_z1 = Inr x2" and
    dz1: "tf_add dy1 (gradient (self_g self) (c_training c) (c_y1 c) (var_values s) dy2 Input)
            = Inr dz1" and
    gv: "map_raising
           (list_get
              (map (gradient (self_f self) (c_training c) x2 st_g dz1)
                   (map Var (trainable_variables (self_f self)))
               @ map (gradient (self_g self) (c_training c) (c_y1 c) (var_values s) dy2)
                     (map Var (trainable_variables (self_g self))))) idx = Inr gv"
    by auto
  let ?dw = "map (\<lambda>v. gradient (self_f self) (c_training c) x2 st_g dz1 (Var v))
                 (trainable_variables (self_f self))
             @ map (\<lambda>v. gradient (self_g self) (c_training c) (c_y1 c)
                           (var_values s) dy2 (Var v))
                   (trainable_variables (self_g self))"
  from map_raising_list_get[OF gv] have gv_eq: "gv = map (\<lambda>i. ?dw ! i) idx"
    by (simp add: comp_def)
  from map_raising_Inr[OF idx] have
    len: "length idx = length vl" and
    each: "\<forall>i<length vl. list_index ?fg (vl ! i) = Inr (idx ! i)"
    by auto
  have "\<exists>j. list_index ?fg (vl ! i) = Inr j \<and> ?fg ! j = vl ! i \<and> gv ! i = ?dw ! j
          \<and> gv ! i =
              (if vl ! i \<in> set (trainable_variables (self_f self))
               then gradient (self_f self) (c_training c) x2 st_g dz1 (Var (vl ! i))
               else gradient (self_g self) (c_training c) (c_y1 c) (var_values s) dy2
                      (Var (vl ! i)))"
    if i: "i < length vl" for i
  proof -
    from each i have j: "list_index ?fg (vl ! i) = Inr (idx ! i)" by simp
    from list_index_Inr[OF j] have at: "?fg ! (idx ! i) = vl ! i" by simp
    from gv_eq i len have nth: "gv ! i = ?dw ! (idx ! i)" by simp
    from reorder_nth[OF j] have
      "?dw ! (idx ! i) =
         (if vl ! i \<in> set (trainable_variables (self_f self))
          then gradient (self_f self) (c_training c) x2 st_g dz1 (Var (vl ! i))
          else gradient (self_g self) (c_training c) (c_y1 c) (var_values s) dy2
                 (Var (vl ! i)))" .
    with j at nth show ?thesis by auto
  qed
  moreover from gv_eq len have "length gv = length vl" by simp
  ultimately show ?thesis using split g x2 dz1 by blast
qed

theorem gradients_follow_requested_order_witness:
  "\<exists>y c s1 dx gv s2.
     reversible scale_pair None no_tape pixel initial_state = (Inr (y, c), s1)
   \<and> grad_fn scale_pair c (Tensor [1, 1, 1, 2] [1, 1]) (Some [2, 0]) s1 = (Inr (dx, gv), s2)
   \<and> gv = [Tensor [] [5], Tensor [] [8]]
   \<and> length gv = length [2, 0 :: nat]"
proof -
  have "case reversible scale_pair None no_tape pixel initial_state of
          (Inl e, s1) \<Rightarrow> False
        | (Inr a, s1) \<Rightarrow>
            backward_strategy scale_pair (snd a) = Manual
          \<and> (case grad_fn scale_pair (snd a) (Tensor [1, 1, 1, 2] [1, 1]) (Some [2, 0]) s1 of
               (Inl e, s2) \<Rightarrow> False
             | (Inr r, s2) \<Rightarrow> snd r = [Tensor [] [5], Tensor [] [8]])"
    by code_simp
  then obtain y c s1 dx gv s2 where
    fwd: "reversible scale_pair None no_tape pixel initial_state = (Inr (y, c), s1)" and
    manual: "backward_strategy scale_pair c = Manual" and
    bwd: "grad_fn scale_pair c (Tensor [1, 1, 1, 2] [1, 1]) (Some [2, 0]) s1
            = (Inr (dx, gv), s2)" and
    gv: "gv = [Tensor [] [5], Tensor [] [8]]"
    by (auto dest!: succeeds)
  from gradients_follow_requested_order[OF manual bwd]
  have "length gv = length [2, 0 :: nat]"
    by blast
  with fwd bwd gv show ?thesis by blast
qed

subsection \<open>C7: a backward pass that raises\<close>

lemma load_ckpt_Inl:
  assumes "f_non_trainable_vars s \<noteq> None" and "g_non_trainable_vars s \<noteq> None"
  shows "load_ckpt_non_trainable_vars self s \<noteq> (Inl e, s')"
  using assms
  by (auto simp: load_ckpt_non_trainable_vars_def Let_def split: option.splits)

text \<open>
  C7, as the code has it. \<open>grad_fn\<close> has no handler around the recomputation: when the
  manual branch raises, the exception leaves \<open>grad_fn\<close> and
  \<open>_load_ckpt_non_trainable_vars\<close> has not run. The variables are then exactly as the
  last recomputation call left them: untouched when the failure came before \<open>G\<close> was
  called, as \<open>G\<close>'s call left them, or as \<open>F\<close>'s call after \<open>G\<close>'s left them. The snapshot
  is restored only where the manual branch runs to its end.
\<close>

theorem failed_backward_skips_restore:
  assumes manual: "backward_strategy self c = Manual"
      and bwd: "grad_fn self c dy variables s = (Inl e, s')"
      and snap_f: "f_non_trainable_vars s \<noteq> None"
      and snap_g: "g_non_trainable_vars s \<noteq> None"
  shows "var_values s' = var_values s
       \<or> (\<exists>r st_g. call (self_g self) (c_training c) (c_y1 c) (var_values s) = (r, st_g)
             \<and> (var_values s' = st_g
                \<or> (\<exists>g_z1 x2 r' st_f. r = Inr g_z1 \<and> tf_sub (c_y2 c) g_z1 = Inr x2
                      \<and> call (self_f self) (c_training c) x2 st_g = (r', st_f)
                      \<and> var_values s' = st_f)))"
proof -
  from bwd manual have m: "grad_fn_manual self c dy variables s = (Inl e, s')"
    by (simp add: grad_fn_Manual)
  have no_load: "load_ckpt_non_trainable_vars self (s\<lparr>var_values := st\<rparr>) \<noteq> (Inl e, s')" for st
    by (rule load_ckpt_Inl) (simp_all add: snap_f snap_g)
  from m no_load show ?thesis
    unfolding grad_fn_manual_def Let_def
    by (auto simp: then_do_Inl then_do_Inr lift_Inr lift_Inl ret_Inl ret_Inr raise_Inl raise_Inr
          call_layer_Inr call_layer_Inl get_vars_Inr get_vars_Inl
          split: prod.splits option.splits)
qed

theorem failed_backward_skips_restore_witness:
  "\<exists>y c s1 e s2.
     reversible flaky_pair None no_tape pixel initial_state = (Inr (y, c), s1)
   \<and> grad_fn flaky_pair c (Tensor [1, 1, 1, 2] [1, 1]) (Some [2, 0]) s1 = (Inl e, s2)
   \<and> (var_values s2 = var_values s1
       \<or> (\<exists>r st_g. call (self_g flaky_pair) (c_training c) (c_y1 c) (var_values s1)
                       = (r, st_g)
             \<and> (var_values s2 = st_g
                \<or> (\<exists>g_z1 x2 r' st_f. r = Inr g_z1 \<and> tf_sub (c_y2 c) g_z1 = Inr x2
                      \<and> call (self_f flaky_pair) (c_training c) x2 st_g = (r', st_f)
                      \<and> var_values s2 = st_f))))"
proof -
  have "case reversible flaky_pair None no_tape pixel initial_state of
          (Inl e, s1) \<Rightarrow> False
        | (Inr a, s1) \<Rightarrow>
            backward_strategy flaky_pair (snd a) = Manual
          \<and> f_non_trainable_vars s1 \<noteq> None \<and> g_non_trainable_vars s1 \<noteq> None
          \<and> (case grad_fn flaky_pair (snd a) (Tensor [1, 1, 1, 2] [1, 1]) (Some [2, 0]) s1 of
               (Inl e, s2) \<Rightarrow> True
             | (Inr r, s2) \<Rightarrow> False)"
    by code_simp
  then obtain y c s1 e s2 where
    fwd: "reversible flaky_pair None no_tape pixel initial_state = (Inr (y, c), s1)" and
    manual: "backward_strategy flaky_pair c = Manual" and
    snap: "f_non_trainable_vars s1 \<noteq> None" "g_non_trainable_vars s1 \<noteq> None" and
    bwd: "grad_fn flaky_pair c (Tensor [1, 1, 1, 2] [1, 1]) (Some [2, 0]) s1 = (Inl e, s2)"
    by (auto dest!: succeeds fails)
  from failed_backward_skips_restore[OF manual bwd snap] fwd bwd show ?thesis
    by blast
qed

text \<open>
  C7 as stated fails on \<open>flaky_pair\<close>, whose \<open>F\<close> raises when it is called again. The
  forward pass leaves \<open>G\<close>'s statistic (variable 3) at 1 and snapshots it; the manual
  backward pass recomputes \<open>G\<close>, which moves the statistic to 2, then \<open>F\<close> raises; the
  exception leaves \<open>grad_fn\<close> with the statistic still at 2.
\<close>

theorem failed_backward_partial_update:
  "\<exists>y c s1 s2.
     reversible flaky_pair None no_tape pixel initial_state = (Inr (y, c), s1)
   \<and> backward_strategy flaky_pair c = Manual
   \<and> g_non_trainable_vars s1 = Some [Tensor [] [1]]
   \<and> var_values s1 3 = Tensor [] [1]
   \<and> grad_fn flaky_pair c (Tensor [1, 1, 1, 2] [1, 1]) (Some [2, 0]) s1
        = (Inl (LayerError 1), s2)
   \<and> var_values s2 3 = Tensor [] [2]"
proof -
  have "case reversible flaky_pair None no_tape pixel initial_state of
          (Inl e, s1) \<Rightarrow> False
        | (Inr a, s1) \<Rightarrow>
            backward_strategy flaky_pair (snd a) = Manual
          \<and> g_non_trainable_vars s1 = Some [Tensor [] [1]]
          \<and> var_values s1 3 = Tensor [] [1]
          \<and> (case grad_fn flaky_pair (snd a) (Tensor [1, 1, 1, 2] [1, 1]) (Some [2, 0]) s1 of
               (Inl e, s2) \<Rightarrow> e = LayerError 1 \<and> var_values s2 3 = Tensor [] [2]
             | (Inr r, s2) \<Rightarrow> False)"
    by code_simp
  then show ?thesis
    by (auto dest!: succeeds fails)
qed

subsection \<open>C3: the forward output\<close>

lemma pool_dim:
  "0 < k \<Longrightarrow> (if d < k then 0 else (d - k) div k + 1) = d div (k :: nat)"
  by (simp add: le_div_geq)

lemma length4:
  "length xs = 4 \<Longrightarrow> \<exists>a b c d. xs = [a, b, c, d]"
  by (auto simp: numeral_eq_Suc length_Suc_conv)

lemma avg_pool_Inr:
  assumes "tf_nn_avg_pool x ksize ss = Inr p"
  shows "length (shape x) = 4 \<and> length ksize = 4 \<and> length ss = 4
       \<and> (\<forall>k \<in> set ksize. 0 < k) \<and> (\<forall>s \<in> set ss. 0 < s)
       \<and> shape p = map (\<lambda>(d, k, s). if d < k then 0 else (d - k) div s + 1)
                       (zip (shape x) (zip (map nat ksize) (map nat ss)))"
proof -
  let ?bad = "length (shape x) \<noteq> 4 \<or> length ksize \<noteq> 4 \<or> length ss \<noteq> 4
         \<or> (\<exists>k \<in> set ksize. k \<le> 0) \<or> (\<exists>s \<in> set ss. s \<le> 0)"
  have nb: "\<not> ?bad"
  proof
    assume ?bad
    then have "tf_nn_avg_pool x ksize ss = Inl InvalidArgumentError"
      unfolding tf_nn_avg_pool_def by (simp only: if_True)
    with assms show False by simp
  qed
  then have "tf_nn_avg_pool x ksize ss =
     (let ks = map nat ksize; ss' = map nat ss;
             out = map (\<lambda>(d, k, s). if d < k then 0 else (d - k) div s + 1)
                       (zip (shape x) (zip ks ss'))
         in Inr (build out
                  (\<lambda>idx. sum_list (map (\<lambda>w. elem_at x (map (\<lambda>(i, s, j). i * s + j)
                                                         (zip idx (zip ss' w))))
                                        (indices ks))
                          / of_nat (prod_list ks))))"
    unfolding tf_nn_avg_pool_def by (simp only: if_False)
  with assms have "shape p = map (\<lambda>(d, k, s). if d < k then 0 else (d - k) div s + 1)
                       (zip (shape x) (zip (map nat ksize) (map nat ss)))"
    by (auto simp: Let_def build_def simp del: indices.simps)
  with nb show ?thesis by (auto simp: not_le)
qed

lemma maybe_downsample_Inr:
  assumes "maybe_downsample x out st ax = Inr r"
  shows "\<exists>p k. tf_nn_avg_pool x (pad_strides st ax) (pad_strides st ax) = Inr p
           \<and> shape_at p ax = Inr k
           \<and> (if k < out
               then \<exists>q. (if ax = 1
                          then tf_pad p [(0, 0), ((out - k) div 2, (out - k) div 2),
                                         (0, 0), (0, 0)]
                          else tf_pad p [(0, 0), (0, 0), (0, 0),
                                         ((out - k) div 2, (out - k) div 2)]) = Inr q
                        \<and> r = add_scalar q 0
               else r = add_scalar p 0)"
  using assms unfolding maybe_downsample_def Let_def
  by (auto split: sum.splits if_splits)

lemma nth_concat_uniform:
  "\<forall>xs \<in> set xss. length xs = m \<Longrightarrow> i < length xss \<Longrightarrow> j < m
     \<Longrightarrow> concat xss ! (i * m + j) = xss ! i ! j"
proof (induction xss arbitrary: i)
  case Nil
  then show ?case by simp
next
  case (Cons xs xss)
  show ?case
  proof (cases i)
    case 0
    with Cons.prems show ?thesis by (simp add: nth_append)
  next
    case (Suc i')
    with Cons.prems have "concat xss ! (i' * m + j) = xss ! i' ! j"
      by (intro Cons.IH) auto
    with Suc Cons.prems show ?thesis by (simp add: nth_append)
  qed
qed

lemma set_indices:
  "idx \<in> set (indices sh) \<longleftrightarrow> list_all2 (\<lambda>i d. i < d) idx sh"
proof (induction sh arbitrary: idx)
  case Nil
  then show ?case by auto
next
  case (Cons d ds)
  have "idx \<in> set (indices (d # ds)) \<longleftrightarrow>
          (\<exists>i js. idx = i # js \<and> i < d \<and> js \<in> set (indices ds))"
    by auto
  with Cons show ?case by (simp add: list_all2_Cons2)
qed

lemma indices_nth:
  "list_all2 (\<lambda>i d. i < d) idx sh
     \<Longrightarrow> offset sh idx < prod_list sh \<and> indices sh ! offset sh idx = idx"
proof (induction sh arbitrary: idx)
  case Nil
  then show ?case by simp
next
  case (Cons d ds)
  from Cons.prems obtain i js where idx: "idx = i # js" and i: "i < d"
    and js: "list_all2 (\<lambda>i d. i < d) js ds"
    by (auto simp: list_all2_Cons2)
  from Cons.IH[OF js] have o: "offset ds js < prod_list ds"
    and nth: "indices ds ! offset ds js = js"
    by auto
  let ?m = "prod_list ds"
  have "i * ?m + offset ds js < (i + 1) * ?m" using o by simp
  also have "\<dots> \<le> d * ?m" using i by (intro mult_le_mono1) simp
  finally have lt: "i * ?m + offset ds js < d * ?m" .
  have "concat (map (\<lambda>i. map (\<lambda>r. i # r) (indices ds)) [0..<d]) ! (i * ?m + offset ds js)
          = map (\<lambda>i. map (\<lambda>r. i # r) (indices ds)) [0..<d] ! i ! offset ds js"
    by (rule nth_concat_uniform) (use i o in \<open>auto simp: length_indices\<close>)
  also have "\<dots> = i # js"
    using i o nth by (simp add: length_indices)
  finally show ?case using lt idx by simp
qed

lemma elem_at_build:
  "idx \<in> set (indices sh) \<Longrightarrow> elem_at (build sh h) idx = h idx"
  using indices_nth[of idx sh]
  by (simp add: set_indices elem_at_def build_def length_indices)

lemma elem_at_add_scalar:
  "well_formed t \<Longrightarrow> idx \<in> set (indices (shape t))
     \<Longrightarrow> elem_at (add_scalar t v) idx = elem_at t idx + v"
  using indices_nth[of idx "shape t"]
  by (simp add: set_indices elem_at_def add_scalar_def well_formed_def)

lemma indices4:
  "idx \<in> set (indices [d0, d1, d2, d3]) \<longleftrightarrow>
     (\<exists>i0 i1 i2 i3. idx = [i0, i1, i2, i3] \<and> i0 < d0 \<and> i1 < d1 \<and> i2 < d2 \<and> i3 < d3)"
  unfolding set_indices by (auto simp: list_all2_Cons2)

lemma add_scalar_0: "add_scalar t 0 = t"
  by (cases t) (simp add: add_scalar_def)

lemma avg_pool_well_formed: "tf_nn_avg_pool x ks ss = Inr p \<Longrightarrow> well_formed p"
  unfolding tf_nn_avg_pool_def Let_def
  by (auto simp: well_formed_build split: if_splits)

lemma maybe_downsample_padded:
  assumes r: "maybe_downsample x out st ax = Inr r" and ax: "ax = - 1 \<or> ax = 1"
  shows "\<exists>p n h w k.
           tf_nn_avg_pool x (pad_strides st ax) (pad_strides st ax) = Inr p
         \<and> 0 < st
         \<and> shape x = (if ax = 1 then [n, k, h, w] else [n, h, w, k])
         \<and> shape p = (if ax = 1 then [n, k, h div nat st, w div nat st]
                       else [n, h div nat st, w div nat st, k])
         \<and> (k \<le> out \<and> even (out - k) \<longrightarrow>
               zero_padded (if ax = 1 then 1 else 3) ((out - k) div 2) p r
             \<and> shape_at r ax = Inr out)"
proof -
  from maybe_downsample_Inr[OF r] obtain p k where
    p: "tf_nn_avg_pool x (pad_strides st ax) (pad_strides st ax) = Inr p" and
    k: "shape_at p ax = Inr k" and
    rest: "if k < out
           then \<exists>q. (if ax = 1
                      then tf_pad p [(0, 0), ((out - k) div 2, (out - k) div 2),
                                     (0, 0), (0, 0)]
                      else tf_pad p [(0, 0), (0, 0), (0, 0),
                                     ((out - k) div 2, (out - k) div 2)]) = Inr q
                    \<and> r = add_scalar q 0
           else r = add_scalar p 0"
    by blast
  from avg_pool_Inr[OF p] have len: "length (shape x) = 4"
    and pos: "\<forall>s \<in> set (pad_strides st ax). 0 < s"
    and shp: "shape p = map (\<lambda>(d, k, s). if d < k then 0 else (d - k) div s + 1)
                (zip (shape x) (zip (map nat (pad_strides st ax))
                                    (map nat (pad_strides st ax))))"
    by auto
  from avg_pool_well_formed[OF p] have wfp: "well_formed p" .
  from pos have st: "0 < st" by (auto simp: pad_strides_def split: if_splits)
  from len obtain a b c d where sh: "shape x = [a, b, c, d]"
    by (auto dest: length4)
  from st have d2: "(if e < nat st then 0 else (e - nat st) div nat st + 1) = e div nat st"
    for e by (simp add: pool_dim)
  let ?pd = "(out - k) div 2"
  show ?thesis
  proof (cases "ax = 1")
    case True
    from shp sh True have shp': "shape p = [a, b, c div nat st, d div nat st]"
      by (simp add: pad_strides_def d2)
    from k shp' True have kb: "k = b"
      by (simp add: shape_at_def py_axis_def)
    have "zero_padded 1 ?pd p r \<and> shape_at r ax = Inr out"
      if le: "k \<le> out" and ev: "even (out - k)"
    proof (cases "k < out")
      case lt: True
      with rest True obtain q where
        q: "tf_pad p [(0, 0), (?pd, ?pd), (0, 0), (0, 0)] = Inr q" and
        rq: "r = add_scalar q 0"
        by auto
      from q shp' have q_def:
        "q = build [a, ?pd + b + ?pd, c div nat st, d div nat st]
               (\<lambda>idx. if list_all (\<lambda>(i, (d, (p, q))). p \<le> i \<and> i < p + d)
                                    (zip idx (zip (shape p)
                                       [(0, 0), (?pd, ?pd), (0, 0), (0, 0)]))
                       then elem_at p (map (\<lambda>(i, (p, q)). i - p)
                                       (zip idx [(0, 0), (?pd, ?pd), (0, 0), (0, 0)]))
                       else 0)"
        by (auto simp: tf_pad_def)
      have shr: "shape r = [a, b + 2 * ?pd, c div nat st, d div nat st]"
        using rq q_def by (simp add: add_scalar_0 shape_build)
      have wfr: "well_formed r"
        using rq q_def by (simp add: add_scalar_0 well_formed_build)
      have vals: "elem_at r idx =
           (if ?pd \<le> idx ! 1 \<and> idx ! 1 < ?pd + shape p ! 1
            then elem_at p (idx[1 := idx ! 1 - ?pd]) else 0)"
        if "idx \<in> set (indices (shape r))" for idx
      proof -
        from that have "idx \<in> set (indices [a, b + 2 * ?pd, c div nat st, d div nat st])"
          by (simp only: shr)
        then obtain i0 i1 i2 i3 where
          idx: "idx = [i0, i1, i2, i3]" and
          b0: "i0 < a" and b1: "i1 < b + 2 * ?pd" and
          b2: "i2 < c div nat st" and b3: "i3 < d div nat st"
          unfolding indices4 by blast
        from shr have "[a, ?pd + b + ?pd, c div nat st, d div nat st] = shape r"
          by simp
        with that have mem:
          "idx \<in> set (indices [a, ?pd + b + ?pd, c div nat st, d div nat st])"
          by (simp only:)
        have "elem_at r idx = elem_at q idx" using rq by (simp add: add_scalar_0)
        also have "\<dots> =
           (if list_all (\<lambda>(i, (d, (p, q))). p \<le> i \<and> i < p + d)
                        (zip idx (zip (shape p) [(0, 0), (?pd, ?pd), (0, 0), (0, 0)]))
            then elem_at p (map (\<lambda>(i, (p, q)). i - p)
                             (zip idx [(0, 0), (?pd, ?pd), (0, 0), (0, 0)]))
            else 0)"
          unfolding q_def by (rule elem_at_build[OF mem])
        also have "\<dots> = (if ?pd \<le> idx ! 1 \<and> idx ! 1 < ?pd + shape p ! 1
            then elem_at p (idx[1 := idx ! 1 - ?pd]) else 0)"
          using idx b0 b2 b3 shp' by simp
        finally show ?thesis .
      qed
      from le ev have "b + 2 * ?pd = out" using kb by auto
      with shr True have "shape_at r ax = Inr out"
        by (simp add: shape_at_def py_axis_def)
      moreover have "zero_padded 1 ?pd p r"
        unfolding zero_padded_def using shr shp' wfr vals by (simp del: indices.simps)
      ultimately show ?thesis by simp
    next
      case False
      with le have eq: "k = out" by simp
      with rest have rp: "r = p" by (simp add: add_scalar_0)
      have "idx ! 1 < shape p ! 1" if "idx \<in> set (indices (shape p))" for idx
        using that unfolding shp' indices4 by auto
      then have "zero_padded 1 0 p p"
        unfolding zero_padded_def using wfp by (simp del: indices.simps)
      with rp eq k show ?thesis by simp
    qed
    with p st sh shp' True kb show ?thesis by auto
  next
    case False
    with ax have ax': "ax = - 1" by simp
    from shp sh ax' have shp': "shape p = [a, b div nat st, c div nat st, d]"
      by (simp add: pad_strides_def d2)
    from k shp' ax' have kd: "k = d"
      by (simp add: shape_at_def py_axis_def)
    have "zero_padded 3 ?pd p r \<and> shape_at r ax = Inr out"
      if le: "k \<le> out" and ev: "even (out - k)"
    proof (cases "k < out")
      case lt: True
      with rest ax' obtain q where
        q: "tf_pad p [(0, 0), (0, 0), (0, 0), (?pd, ?pd)] = Inr q" and
        rq: "r = add_scalar q 0"
        by auto
      from q shp' have q_def:
        "q = build [a, b div nat st, c div nat st, ?pd + d + ?pd]
               (\<lambda>idx. if list_all (\<lambda>(i, (d, (p, q))). p \<le> i \<and> i < p + d)
                                    (zip idx (zip (shape p)
                                       [(0, 0), (0, 0), (0, 0), (?pd, ?pd)]))
                       then elem_at p (map (\<lambda>(i, (p, q)). i - p)
                                       (zip idx [(0, 0), (0, 0), (0, 0), (?pd, ?pd)]))
                       else 0)"
        by (auto simp: tf_pad_def)
      have shr: "shape r = [a, b div nat st, c div nat st, d + 2 * ?pd]"
        using rq q_def by (simp add: add_scalar_0 shape_build)
      have wfr: "well_formed r"
        using rq q_def by (simp add: add_scalar_0 well_formed_build)
      have vals: "elem_at r idx =
           (if ?pd \<le> idx ! 3 \<and> idx ! 3 < ?pd + shape p ! 3
            then elem_at p (idx[3 := idx ! 3 - ?pd]) else 0)"
        if "idx \<in> set (indices (shape r))" for idx
      proof -
        from that have "idx \<in> set (indices [a, b div nat st, c div nat st, d + 2 * ?pd])"
          by (simp only: shr)
        then obtain i0 i1 i2 i3 where
          idx: "idx = [i0, i1, i2, i3]" and
          b0: "i0 < a" and b1: "i1 < b div nat st" and
          b2: "i2 < c div nat st" and b3: "i3 < d + 2 * ?pd"
          unfolding indices4 by blast
        from shr have "[a, b div nat st, c div nat st, ?pd + d + ?pd] = shape r"
          by simp
        with that have mem:
          "idx \<in> set (indices [a, b div nat st, c div nat st, ?pd + d + ?pd])"
          by (simp only:)
        have "elem_at r idx = elem_at q idx" using rq by (simp add: add_scalar_0)
        also have "\<dots> =
           (if list_all (\<lambda>(i, (d, (p, q))). p \<le> i \<and> i < p + d)
                        (zip idx (zip (shape p) [(0, 0), (0, 0), (0, 0), (?pd, ?pd)]))
            then elem_at p (map (\<lambda>(i, (p, q)). i - p)
                             (zip idx [(0, 0), (0, 0), (0, 0), (?pd, ?pd)]))
            else 0)"
          unfolding q_def by (rule elem_at_build[OF mem])
        also have "\<dots> = (if ?pd \<le> idx ! 3 \<and> idx ! 3 < ?pd + shape p ! 3
            then elem_at p (idx[3 := idx ! 3 - ?pd]) else 0)"
          using idx b0 b1 b2 shp' by (simp add: numeral_3_eq_3)
        finally show ?thesis .
      qed
      from le ev have "d + 2 * ?pd = out" using kd by auto
      with shr ax' have "shape_at r ax = Inr out"
        by (simp add: shape_at_def py_axis_def)
      moreover have "zero_padded 3 ?pd p r"
        unfolding zero_padded_def using shr shp' wfr vals
        by (simp add: numeral_3_eq_3 del: indices.simps)
      ultimately show ?thesis by simp
    next
      case False
      with le have eq: "k = out" by simp
      with rest have rp: "r = p" by (simp add: add_scalar_0)
      have "idx ! 3 < shape p ! 3" if "idx \<in> set (indices (shape p))" for idx
        using that unfolding shp' indices4 by auto
      then have "zero_padded 3 0 p p"
        unfolding zero_padded_def using wfp by (simp del: indices.simps)
      with rp eq k show ?thesis by simp
    qed
    with p st sh shp' ax' kd show ?thesis by auto
  qed
qed

text \<open>
  C3, as the code has it. A forward call that returns \<open>y\<close> has split \<open>x\<close> into \<open>x1\<close> and
  \<open>x2\<close> on the channel axis and computed \<open>z1 = F(x2) + x1_down\<close>, \<open>y2 = x2_down + G(z1)\<close>,
  \<open>y1 = z1\<close> and \<open>y = concat(y1, y2)\<close>. Both shortcuts are average-pooled with the stride
  of \<open>F\<close>: \<open>p1\<close> and \<open>p2\<close> are \<open>x1\<close> and \<open>x2\<close> pooled with window and stride \<open>strides F\<close> on
  height and width. Where \<open>F(x2)\<close> has at least the \<open>k\<close> channels of \<open>p1\<close> and the
  difference is even, \<open>x1_down\<close> is \<open>p1\<close> with half the difference in zero channels on
  each side and has the channel count of \<open>F(x2)\<close>; the same holds of \<open>x2_down\<close>, \<open>p2\<close> and
  \<open>G(z1)\<close>. Nothing is said here of an odd difference.
\<close>

theorem forward_output:
  assumes fwd: "reversible self training fwdtape x s = (Inr (y, c), s')"
      and ax: "self_axis self = - 1 \<or> self_axis self = 1"
  shows "\<exists>x1 x2 f_x2 st1 fc p1 x1_down z1 g_z1 st2 gc p2 x2_down y2 n h w k.
     tf_split2 x (self_axis self) = Inr (x1, x2)
   \<and> shape x1 = (if self_axis self = 1 then [n, k, h, w] else [n, h, w, k])
   \<and> shape x2 = shape x1
   \<and> call (self_f self) training x2 (var_values s) = (Inr f_x2, st1)
   \<and> shape_at f_x2 (self_axis self) = Inr fc
   \<and> 0 < strides (self_f self)
   \<and> tf_nn_avg_pool x1 (pad_strides (strides (self_f self)) (self_axis self))
                        (pad_strides (strides (self_f self)) (self_axis self)) = Inr p1
   \<and> shape p1 =
        (if self_axis self = 1
         then [n, k, h div nat (strides (self_f self)), w div nat (strides (self_f self))]
         else [n, h div nat (strides (self_f self)), w div nat (strides (self_f self)), k])
   \<and> (k \<le> fc \<and> even (fc - k) \<longrightarrow>
         zero_padded (if self_axis self = 1 then 1 else 3) ((fc - k) div 2) p1 x1_down
       \<and> shape_at x1_down (self_axis self) = Inr fc)
   \<and> tf_add f_x2 x1_down = Inr z1
   \<and> call (self_g self) training z1 st1 = (Inr g_z1, st2)
   \<and> shape_at g_z1 (self_axis self) = Inr gc
   \<and> tf_nn_avg_pool x2 (pad_strides (strides (self_f self)) (self_axis self))
                        (pad_strides (strides (self_f self)) (self_axis self)) = Inr p2
   \<and> shape p2 = shape p1
   \<and> (k \<le> gc \<and> even (gc - k) \<longrightarrow>
         zero_padded (if self_axis self = 1 then 1 else 3) ((gc - k) div 2) p2 x2_down
       \<and> shape_at x2_down (self_axis self) = Inr gc)
   \<and> tf_add x2_down g_z1 = Inr y2
   \<and> c_y1 c = z1 \<and> c_y2 c = y2
   \<and> tf_concat2 (c_y1 c) (c_y2 c) (self_axis self) = Inr y"
proof -
  let ?ax = "self_axis self" and ?st = "strides (self_f self)"
  from reversible_Inr[OF fwd] obtain x1 x2 f_x2 st1 fc x1_down z1 g_z1 st2 gc x2_down y2
    where
    split: "tf_split2 x ?ax = Inr (x1, x2)" and
    f: "call (self_f self) training x2 (var_values s) = (Inr f_x2, st1)" and
    fc: "shape_at f_x2 ?ax = Inr fc" and
    d1: "maybe_downsample x1 fc ?st ?ax = Inr x1_down" and
    z1: "tf_add f_x2 x1_down = Inr z1" and
    g: "call (self_g self) training z1 st1 = (Inr g_z1, st2)" and
    gc: "shape_at g_z1 ?ax = Inr gc" and
    d2: "maybe_downsample x2 gc ?st ?ax = Inr x2_down" and
    y2: "tf_add x2_down g_z1 = Inr y2" and
    y: "tf_concat2 z1 y2 ?ax = Inr y" and
    c1: "c_y1 c = z1" and c2: "c_y2 c = y2"
    by auto
  from split have same: "shape x2 = shape x1"
    by (auto simp: tf_split2_def Let_def shape_build split: sum.splits if_splits)
  from maybe_downsample_padded[OF d1 ax] obtain p1 n h w k where
    p1: "tf_nn_avg_pool x1 (pad_strides ?st ?ax) (pad_strides ?st ?ax) = Inr p1" and
    st: "0 < ?st" and
    sh1: "shape x1 = (if ?ax = 1 then [n, k, h, w] else [n, h, w, k])" and
    sp1: "shape p1 = (if ?ax = 1 then [n, k, h div nat ?st, w div nat ?st]
                      else [n, h div nat ?st, w div nat ?st, k])" and
    pad1: "k \<le> fc \<and> even (fc - k) \<longrightarrow>
             zero_padded (if ?ax = 1 then 1 else 3) ((fc - k) div 2) p1 x1_down
           \<and> shape_at x1_down ?ax = Inr fc"
    by blast
  from maybe_downsample_padded[OF d2 ax] obtain p2 n' h' w' k' where
    p2: "tf_nn_avg_pool x2 (pad_strides ?st ?ax) (pad_strides ?st ?ax) = Inr p2" and
    sh2: "shape x2 = (if ?ax = 1 then [n', k', h', w'] else [n', h', w', k'])" and
    sp2: "shape p2 = (if ?ax = 1 then [n', k', h' div nat ?st, w' div nat ?st]
                      else [n', h' div nat ?st, w' div nat ?st, k'])" and
    pad2: "k' \<le> gc \<and> even (gc - k') \<longrightarrow>
             zero_padded (if ?ax = 1 then 1 else 3) ((gc - k') div 2) p2 x2_down
           \<and> shape_at x2_down ?ax = Inr gc"
    by blast
  from same sh1 sh2 have eqs: "n' = n" "h' = h" "w' = w" "k' = k"
    by (auto split: if_splits)
  from sp1 sp2 eqs have sp: "shape p2 = shape p1" by simp
  from pad2 eqs have pad2':
    "k \<le> gc \<and> even (gc - k) \<longrightarrow>
       zero_padded (if ?ax = 1 then 1 else 3) ((gc - k) div 2) p2 x2_down
     \<and> shape_at x2_down ?ax = Inr gc"
    by simp
  from y c1 c2 have cat: "tf_concat2 (c_y1 c) (c_y2 c) ?ax = Inr y" by simp
  from split sh1 same f fc st p1 sp1 pad1 z1 g gc p2 sp pad2' y2 c1 c2 cat
  show ?thesis by blast
qed

theorem forward_output_witness:
  "\<exists>y c s1 x1 x2 p1 x1_down p2 x2_down.
     reversible widening_pair None no_tape patch initial_state = (Inr (y, c), s1)
   \<and> y = Tensor [1, 1, 1, 6] [5, 9, 5, 5, 14, 5]
   \<and> tf_split2 patch (- 1) = Inr (x1, x2)
   \<and> tf_nn_avg_pool x1 [1, 2, 2, 1] [1, 2, 2, 1] = Inr p1
   \<and> tf_nn_avg_pool x2 [1, 2, 2, 1] [1, 2, 2, 1] = Inr p2
   \<and> p1 = Tensor [1, 1, 1, 1] [4]
   \<and> p2 = Tensor [1, 1, 1, 1] [5]
   \<and> zero_padded 3 1 p1 x1_down
   \<and> zero_padded 3 1 p2 x2_down
   \<and> tf_add (Tensor [1, 1, 1, 3] [5, 5, 5]) x1_down = Inr (c_y1 c)
   \<and> c_y1 c = Tensor [1, 1, 1, 3] [5, 9, 5]
   \<and> c_y2 c = Tensor [1, 1, 1, 3] [5, 14, 5]
   \<and> tf_concat2 (c_y1 c) (c_y2 c) (- 1) = Inr y"
proof -
  have "case reversible widening_pair None no_tape patch initial_state of
          (Inl e, s1) \<Rightarrow> False
        | (Inr a, s1) \<Rightarrow> fst a = Tensor [1, 1, 1, 6] [5, 9, 5, 5, 14, 5]
                           \<and> c_y1 (snd a) = Tensor [1, 1, 1, 3] [5, 9, 5]
                           \<and> c_y2 (snd a) = Tensor [1, 1, 1, 3] [5, 14, 5]"
    by code_simp
  then obtain y c s1 where
    fwd: "reversible widening_pair None no_tape patch initial_state = (Inr (y, c), s1)"
    and y: "y = Tensor [1, 1, 1, 6] [5, 9, 5, 5, 14, 5]"
    and y1: "c_y1 c = Tensor [1, 1, 1, 3] [5, 9, 5]"
    and y2: "c_y2 c = Tensor [1, 1, 1, 3] [5, 14, 5]"
    by (auto dest!: succeeds)
  have ax: "self_axis widening_pair = - 1 \<or> self_axis widening_pair = 1"
    by (simp add: widening_pair_def)
  have ps: "pad_strides 2 (- 1) = [1, 2, 2, 1]"
    by (simp add: pad_strides_def)
  have e1: "self_axis widening_pair = - 1"
    and e2: "self_f widening_pair = widening_layer 1"
    and e3: "self_g widening_pair = identity_layer 3"
    by (simp_all add: widening_pair_def)
  have e4: "strides (widening_layer 1) = 2" by (simp add: widening_layer_def)
  have e5: "((- 1 :: int) = 1) = False" by simp
  have e6: "nat 2 = 2" by simp
  note run = forward_output[OF fwd ax, unfolded e1 e2 e3 e4 e5 if_False ps e6]
  from run
  obtain x1 x2 f_x2 st1 fc p1 x1_down z1 g_z1 st2 gc p2 x2_down n h w k where
    split: "tf_split2 patch (- 1) = Inr (x1, x2)" and
    f: "call (widening_layer 1) None x2 (var_values initial_state) = (Inr f_x2, st1)" and
    fc: "shape_at f_x2 (- 1) = Inr fc" and
    p1: "tf_nn_avg_pool x1 [1, 2, 2, 1] [1, 2, 2, 1] = Inr p1" and
    sp1: "shape p1 = [n, h div 2, w div 2, k]" and
    pad1: "k \<le> fc \<and> even (fc - k) \<longrightarrow>
             zero_padded 3 ((fc - k) div 2) p1 x1_down \<and> shape_at x1_down (- 1) = Inr fc" and
    z1: "tf_add f_x2 x1_down = Inr z1" and
    g: "call (identity_layer 3) None z1 st1 = (Inr g_z1, st2)" and
    gc: "shape_at g_z1 (- 1) = Inr gc" and
    p2: "tf_nn_avg_pool x2 [1, 2, 2, 1] [1, 2, 2, 1] = Inr p2" and
    pad2: "k \<le> gc \<and> even (gc - k) \<longrightarrow>
             zero_padded 3 ((gc - k) div 2) p2 x2_down \<and> shape_at x2_down (- 1) = Inr gc" and
    cz: "c_y1 c = z1" and
    cat: "tf_concat2 (c_y1 c) (c_y2 c) (- 1) = Inr y"
    by blast
  have "tf_split2 patch (- 1)
          = Inr (Tensor [1, 2, 2, 1] [1, 3, 5, 7], Tensor [1, 2, 2, 1] [2, 4, 6, 8])"
    by code_simp
  with split have x1: "x1 = Tensor [1, 2, 2, 1] [1, 3, 5, 7]"
    and x2: "x2 = Tensor [1, 2, 2, 1] [2, 4, 6, 8]"
    by simp_all
  have "tf_nn_avg_pool (Tensor [1, 2, 2, 1] [1, 3, 5, 7]) [1, 2, 2, 1] [1, 2, 2, 1]
          = Inr (Tensor [1, 1, 1, 1] [4])"
    by code_simp
  with p1 x1 have p1v: "p1 = Tensor [1, 1, 1, 1] [4]" by simp
  have "tf_nn_avg_pool (Tensor [1, 2, 2, 1] [2, 4, 6, 8]) [1, 2, 2, 1] [1, 2, 2, 1]
          = Inr (Tensor [1, 1, 1, 1] [5])"
    by code_simp
  with p2 x2 have p2v: "p2 = Tensor [1, 1, 1, 1] [5]" by simp
  from sp1 p1v have k: "k = 1" by simp
  have "fst (call (widening_layer 1) None (Tensor [1, 2, 2, 1] [2, 4, 6, 8])
               (var_values initial_state)) = Inr (Tensor [1, 1, 1, 3] [5, 5, 5])"
    by code_simp
  with f x2 have fv: "f_x2 = Tensor [1, 1, 1, 3] [5, 5, 5]" by simp
  with fc have fc3: "fc = 3" by (simp add: shape_at_def py_axis_def)
  from cz y1 have z1v: "z1 = Tensor [1, 1, 1, 3] [5, 9, 5]" by simp
  from g have "g_z1 = z1" by (simp add: identity_layer_def)
  with z1v have gv: "g_z1 = Tensor [1, 1, 1, 3] [5, 9, 5]" by simp
  from gc have gc3: "gc = 3" unfolding gv by (simp add: shape_at_def py_axis_def)
  from pad1 k fc3 have zp1: "zero_padded 3 1 p1 x1_down" by simp
  from pad2 k gc3 have zp2: "zero_padded 3 1 p2 x2_down" by simp
  from z1 fv cz have add: "tf_add (Tensor [1, 1, 1, 3] [5, 5, 5]) x1_down = Inr (c_y1 c)"
    by simp
  from fwd y split p1 p2 p1v p2v zp1 zp2 add y1 y2 cat show ?thesis by blast
qed

text \<open>
  C3 as stated fails on \<open>pooling_pair\<close>, where \<open>F\<close> has stride 2, \<open>G\<close> has stride 1 and no
  channel count changes, so that nothing is padded. The forward call returns a tensor of
  shape \<open>[1, 1, 1, 2]\<close>: both shortcuts were pooled with stride 2. Adjusted with the stride
  of \<open>G\<close>, as stated, \<open>x2\<close> keeps its \<open>2 \<times> 2\<close> pixels, and the concatenation of \<open>y2\<close> with
  the \<open>1 \<times> 1\<close> first half raises.
\<close>

theorem forward_as_specified_differs:
  "(\<exists>y c s1. reversible pooling_pair None no_tape patch initial_state = (Inr (y, c), s1)
        \<and> y = Tensor [1, 1, 1, 2] [9, 14])
   \<and> fst (forward_as_specified pooling_pair None patch initial_state)
        = Inl InvalidArgumentError"
proof -
  have "case reversible pooling_pair None no_tape patch initial_state of
          (Inl e, s1) \<Rightarrow> False
        | (Inr a, s1) \<Rightarrow> fst a = Tensor [1, 1, 1, 2] [9, 14]"
    by code_simp
  then have "\<exists>y c s1. reversible pooling_pair None no_tape patch initial_state
                = (Inr (y, c), s1)
        \<and> y = Tensor [1, 1, 1, 2] [9, 14]"
    by (auto dest!: succeeds)
  moreover have "fst (forward_as_specified pooling_pair None patch initial_state)
        = Inl InvalidArgumentError"
    by code_simp
  ultimately show ?thesis by blast
qed

text \<open>
  Where the two strides are equal the two readings agree: on \<open>scale_pair\<close> the forward
  computation as specified returns what \<open>reversible\<close> returns.
\<close>

lemma forward_as_specified_agrees:
  "fst (forward_as_specified scale_pair None pixel initial_state)
     = Inr (Tensor [1, 1, 1, 2] [5, 17])
   \<and> (case fst (reversible scale_pair None no_tape pixel initial_state) of
         Inl e \<Rightarrow> False
       | Inr a \<Rightarrow> fst a = Tensor [1, 1, 1, 2] [5, 17])"
  by code_simp

end
